theory Spec2Isabelle
  imports Complex_Main
begin

section \<open>Sportify rep counter: data model\<close>

text \<open>
  Shallow embedding of \<^verbatim>\<open>src/ml/inference/rep_counter.py\<close>.

  Numbers. A finite float64 is modelled by the real number it denotes. In
  \<open>calculate_angle\<close> every arithmetic result passes through \<open>float64\<close>, which keeps
  the range of binary64: a result too large overflows to an infinity, a result too small
  underflows to zero. Infinities and NaN follow IEEE 754: division by zero yields an
  infinity or NaN (numpy warns, it does not raise), NaN propagates through
  \<^verbatim>\<open>clip\<close>, \<^verbatim>\<open>arccos\<close> and \<^verbatim>\<open>degrees\<close>, and every ordered comparison with NaN is
  false. The decimal literals of the source that are not binary fractions (0.1, 0.05,
  0.02) stand for the float64 they denote. What the model leaves out is the rounding to
  53 bits: a result within range is taken exactly, in \<open>calculate_angle\<close> and in the mean
  and the difference of ankle heights of the jump counter. Landmark coordinates and
  visibilities are finite.
\<close>

datatype ExerciseType = SQUAT | PUSHUP | JUMP | PULLUP

datatype ExercisePhase = NEUTRAL | DOWN | UP | EXTENDED

fun phase_value :: "ExercisePhase \<Rightarrow> string" where
  "phase_value NEUTRAL = ''neutral''"
| "phase_value DOWN = ''down''"
| "phase_value UP = ''up''"
| "phase_value EXTENDED = ''extended''"

record PoseLandmark =
  pos_x :: real
  pos_y :: real
  visibility :: real

datatype py_error = KeyError string | ValueError string

definition and_then :: "'e + 'a \<Rightarrow> ('a \<Rightarrow> 'e + 'b) \<Rightarrow> 'e + 'b" where
  "and_then r f = (case r of Inl e \<Rightarrow> Inl e | Inr v \<Rightarrow> f v)"

definition getitem :: "(string \<rightharpoonup> 'v) \<Rightarrow> string \<Rightarrow> py_error + 'v" where
  \<comment> \<open>\<^verbatim>\<open>d[k]\<close>: raises KeyError on a missing key\<close>
  "getitem d k = (case d k of None \<Rightarrow> Inl (KeyError k) | Some v \<Rightarrow> Inr v)"

subsection \<open>numpy scalars\<close>

datatype npfloat = Num real | PInf | NInf | NaN

definition float64 :: "real \<Rightarrow> npfloat" where
  \<comment> \<open>the range of binary64 under round-to-nearest: a result of magnitude
     \<open>2^1024 - 2^970\<close> or more overflows to an infinity, one of magnitude \<open>2^-1075\<close> or
     less underflows to zero\<close>
  "float64 r =
     (if 2 ^ 1024 - 2 ^ 970 \<le> \<bar>r\<bar> then (if 0 < r then PInf else NInf)
      else if \<bar>r\<bar> \<le> 1 / 2 ^ 1075 then Num 0
      else Num r)"

definition np_subtract :: "real \<Rightarrow> real \<Rightarrow> npfloat" where
  "np_subtract a b = float64 (a - b)"

fun np_add :: "npfloat \<Rightarrow> npfloat \<Rightarrow> npfloat" where
  "np_add NaN y = NaN"
| "np_add x NaN = NaN"
| "np_add (Num a) (Num b) = float64 (a + b)"
| "np_add PInf NInf = NaN"
| "np_add NInf PInf = NaN"
| "np_add PInf y = PInf"
| "np_add x PInf = PInf"
| "np_add NInf y = NInf"
| "np_add x NInf = NInf"

fun np_multiply :: "npfloat \<Rightarrow> npfloat \<Rightarrow> npfloat" where
  "np_multiply NaN y = NaN"
| "np_multiply x NaN = NaN"
| "np_multiply (Num a) (Num b) = float64 (a * b)"
| "np_multiply (Num a) PInf = (if a = 0 then NaN else if 0 < a then PInf else NInf)"
| "np_multiply (Num a) NInf = (if a = 0 then NaN else if 0 < a then NInf else PInf)"
| "np_multiply PInf (Num b) = (if b = 0 then NaN else if 0 < b then PInf else NInf)"
| "np_multiply NInf (Num b) = (if b = 0 then NaN else if 0 < b then NInf else PInf)"
| "np_multiply PInf PInf = PInf"
| "np_multiply PInf NInf = NInf"
| "np_multiply NInf PInf = NInf"
| "np_multiply NInf NInf = PInf"

fun np_sqrt :: "npfloat \<Rightarrow> npfloat" where
  "np_sqrt (Num r) = (if r < 0 then NaN else Num (sqrt r))"
| "np_sqrt PInf = PInf"
| "np_sqrt NInf = NaN"
| "np_sqrt NaN = NaN"

fun np_divide :: "npfloat \<Rightarrow> npfloat \<Rightarrow> npfloat" where
  \<comment> \<open>a zero divisor gives a signed infinity, or NaN for 0/0; numpy warns, it does not raise\<close>
  "np_divide NaN y = NaN"
| "np_divide x NaN = NaN"
| "np_divide (Num a) (Num b) =
     (if b \<noteq> 0 then float64 (a / b)
      else if 0 < a then PInf
      else if a < 0 then NInf
      else NaN)"
| "np_divide (Num a) PInf = Num 0"
| "np_divide (Num a) NInf = Num 0"
| "np_divide PInf (Num b) = (if 0 \<le> b then PInf else NInf)"
| "np_divide NInf (Num b) = (if 0 \<le> b then NInf else PInf)"
| "np_divide PInf y = NaN"
| "np_divide NInf y = NaN"

fun np_clip :: "npfloat \<Rightarrow> real \<Rightarrow> real \<Rightarrow> npfloat" where
  "np_clip (Num r) lo hi = Num (min (max r lo) hi)"
| "np_clip PInf lo hi = Num hi"
| "np_clip NInf lo hi = Num lo"
| "np_clip NaN lo hi = NaN"

fun np_arccos :: "npfloat \<Rightarrow> npfloat" where
  "np_arccos (Num r) = (if - 1 \<le> r \<and> r \<le> 1 then Num (arccos r) else NaN)"
| "np_arccos PInf = NaN"
| "np_arccos NInf = NaN"
| "np_arccos NaN = NaN"

fun np_degrees :: "npfloat \<Rightarrow> npfloat" where
  "np_degrees (Num r) = Num (r * (180 / pi))"
| "np_degrees PInf = PInf"
| "np_degrees NInf = NInf"
| "np_degrees NaN = NaN"

fun np_lt :: "npfloat \<Rightarrow> real \<Rightarrow> bool" where
  \<comment> \<open>\<^verbatim>\<open>a < c\<close> for a numpy scalar \<open>a\<close> and a finite \<open>c\<close>\<close>
  "np_lt (Num r) c = (r < c)"
| "np_lt PInf c = False"
| "np_lt NInf c = True"
| "np_lt NaN c = False"

fun np_gt :: "npfloat \<Rightarrow> real \<Rightarrow> bool" where
  \<comment> \<open>\<^verbatim>\<open>a > c\<close>\<close>
  "np_gt (Num r) c = (r > c)"
| "np_gt PInf c = True"
| "np_gt NInf c = False"
| "np_gt NaN c = False"

text \<open>The decimal literals of the source that are not binary fractions, as the float64 they denote.\<close>

definition float64_0_1 :: real where
  \<comment> \<open>\<^verbatim>\<open>0.1\<close>\<close>
  "float64_0_1 = 3602879701896397 / 2 ^ 55"

definition float64_0_05 :: real where
  \<comment> \<open>\<^verbatim>\<open>0.05\<close>\<close>
  "float64_0_05 = 3602879701896397 / 2 ^ 56"

definition float64_0_02 :: real where
  \<comment> \<open>\<^verbatim>\<open>0.02\<close>\<close>
  "float64_0_02 = 5764607523034235 / 2 ^ 58"

section \<open>AngleCalculator\<close>

type_synonym vec2 = "npfloat \<times> npfloat"

fun np_dot :: "vec2 \<Rightarrow> vec2 \<Rightarrow> npfloat" where
  \<comment> \<open>\<^verbatim>\<open>np.dot\<close> of two 2-vectors: the sum of the two products\<close>
  "np_dot (a1, a2) (b1, b2) = np_add (np_multiply a1 b1) (np_multiply a2 b2)"

definition linalg_norm :: "vec2 \<Rightarrow> npfloat" where
  \<comment> \<open>\<^verbatim>\<open>np.linalg.norm\<close> of a vector: \<^verbatim>\<open>sqrt(x.dot(x))\<close>\<close>
  "linalg_norm v = np_sqrt (np_dot v v)"

definition calculate_angle :: "PoseLandmark \<Rightarrow> PoseLandmark \<Rightarrow> PoseLandmark \<Rightarrow> npfloat" where
  "calculate_angle point1 point2 point3 =
     (let a = (pos_x point1, pos_y point1);
          b = (pos_x point2, pos_y point2);
          c = (pos_x point3, pos_y point3);
          ba = (np_subtract (fst a) (fst b), np_subtract (snd a) (snd b));
          bc = (np_subtract (fst c) (fst b), np_subtract (snd c) (snd b));
          cosine_angle =
            np_divide (np_dot ba bc) (np_multiply (linalg_norm ba) (linalg_norm bc));
          angle = np_arccos (np_clip cosine_angle (- 1) 1)
      in np_degrees angle)"

section \<open>PostureAnalyzer\<close>

text \<open>
  The analysis result is a Python dict over a closed set of keys; a key that is not in the
  dict is \<open>None\<close> here.
\<close>

record Analysis =
  score :: "int option"
  errors :: "string list option"
  knee_angle :: "npfloat option"
  back_angle :: "npfloat option"
  elbow_angle :: "npfloat option"
  body_angle :: "npfloat option"
  an_rep_count :: "int option"
  an_phase :: "string option"
  displacement :: "real option"

definition empty_analysis :: Analysis where
  "empty_analysis =
     \<lparr>score = None, errors = None, knee_angle = None, back_angle = None,
      elbow_angle = None, body_angle = None, an_rep_count = None, an_phase = None,
      displacement = None\<rparr>"

type_synonym landmarks = "string \<rightharpoonup> PoseLandmark"

definition clearly_visible :: "landmarks \<Rightarrow> string \<Rightarrow> bool" where
  \<comment> \<open>\<^verbatim>\<open>landmarks.get(lm) and landmarks[lm].visibility > 0.5\<close>\<close>
  "clearly_visible lms lm = (case lms lm of None \<Rightarrow> False | Some p \<Rightarrow> visibility p > 0.5)"

definition not_visible_result :: Analysis where
  "not_visible_result =
     empty_analysis\<lparr>score := Some 0, errors := Some [''Pose not clearly visible'']\<rparr>"

definition squat_required :: "string list" where
  "squat_required = [''left_hip'', ''left_knee'', ''left_ankle'', ''left_shoulder'']"

definition pushup_required :: "string list" where
  "pushup_required = [''left_shoulder'', ''left_elbow'', ''left_wrist'', ''left_hip'']"

definition analyze_squat_posture :: "landmarks \<Rightarrow> py_error + Analysis" where
  "analyze_squat_posture lms =
     (if \<not> list_all (clearly_visible lms) squat_required then Inr not_visible_result
      else
        and_then (getitem lms ''left_hip'') (\<lambda>hip.
        and_then (getitem lms ''left_knee'') (\<lambda>knee.
        and_then (getitem lms ''left_ankle'') (\<lambda>ankle.
          let ka = calculate_angle hip knee ankle;
              (errors1, score1) =
                (if np_lt ka 70 then ([''Squat too deep''], 100 - 10)
                 else if np_gt ka 160 then ([''Squat not deep enough''], 100 - 15)
                 else ([], 100))
          in
        and_then (getitem lms ''left_shoulder'') (\<lambda>shoulder.
        and_then (getitem lms ''left_hip'') (\<lambda>hip2.
        and_then (getitem lms ''left_knee'') (\<lambda>knee2.
          let ba = calculate_angle shoulder hip2 knee2;
              (errors2, score2) =
                (if np_lt ba 160 then (errors1 @ [''Back bent forward''], score1 - 20)
                 else (errors1, score1))
          in Inr (empty_analysis\<lparr>score := Some (max 0 score2), errors := Some errors2,
                                  knee_angle := Some ka, back_angle := Some ba\<rparr>))))))))"

definition analyze_pushup_posture :: "landmarks \<Rightarrow> py_error + Analysis" where
  "analyze_pushup_posture lms =
     (if \<not> list_all (clearly_visible lms) pushup_required then Inr not_visible_result
      else
        and_then (getitem lms ''left_shoulder'') (\<lambda>shoulder.
        and_then (getitem lms ''left_elbow'') (\<lambda>elbow.
        and_then (getitem lms ''left_wrist'') (\<lambda>wrist.
          let ea = calculate_angle shoulder elbow wrist;
              (errors1, score1) =
                (if np_gt ea 170 then ([''Lower chest closer to ground''], 100 - 15)
                 else if np_lt ea 45 then ([''Chest too close to ground''], 100 - 10)
                 else ([], 100))
          in
        and_then (getitem lms ''left_shoulder'') (\<lambda>shoulder2.
        and_then (getitem lms ''left_hip'') (\<lambda>hip.
        and_then (if lms ''left_knee'' \<noteq> None then getitem lms ''left_knee''
                  else getitem lms ''left_hip'') (\<lambda>third.
          let ba = calculate_angle shoulder2 hip third;
              (errors2, score2) =
                (if np_lt ba 160 then (errors1 @ [''Keep body in straight line''], score1 - 20)
                 else (errors1, score1))
          in Inr (empty_analysis\<lparr>score := Some (max 0 score2), errors := Some errors2,
                                  elbow_angle := Some ea, body_angle := Some ba\<rparr>))))))))"

section \<open>RepCounter\<close>

record RepCounter =
  exercise_type :: ExerciseType
  confidence_threshold :: real
  rep_count :: int
  current_phase :: ExercisePhase
  phase_history :: "ExercisePhase list"
  posture_analyzer :: ExerciseType
  thresholds :: "(string \<times> real) list"
  baseline_y :: "real option"

text \<open>
  \<open>baseline_y\<close> is the attribute that exists only after the first jump frame:
  \<^verbatim>\<open>hasattr(self, 'baseline_y')\<close> is \<open>baseline_y self \<noteq> None\<close>. \<open>posture_analyzer\<close> holds
  the exercise type the analyzer object was built with, its only field.
\<close>

definition ExerciseType_of :: "string \<Rightarrow> py_error + ExerciseType" where
  \<comment> \<open>\<^verbatim>\<open>ExerciseType(exercise_type)\<close>: the enum lookup by value raises ValueError\<close>
  "ExerciseType_of s =
     (if s = ''squat'' then Inr SQUAT
      else if s = ''pushup'' then Inr PUSHUP
      else if s = ''jump'' then Inr JUMP
      else if s = ''pullup'' then Inr PULLUP
      else Inl (ValueError s))"

fun get_exercise_thresholds :: "ExerciseType \<Rightarrow> (string \<times> real) list" where
  "get_exercise_thresholds SQUAT =
     [(''down_threshold'', 110), (''up_threshold'', 160), (''min_hold_frames'', 3)]"
| "get_exercise_thresholds PUSHUP =
     [(''down_threshold'', 90), (''up_threshold'', 160), (''min_hold_frames'', 2)]"
| "get_exercise_thresholds JUMP =
     [(''up_threshold'', float64_0_1), (''down_threshold'', - float64_0_05),
      (''min_hold_frames'', 2)]"
| "get_exercise_thresholds PULLUP = []"

definition RepCounter_init :: "string \<Rightarrow> real \<Rightarrow> py_error + RepCounter" where
  "RepCounter_init exercise_type_str conf =
     and_then (ExerciseType_of exercise_type_str) (\<lambda>t.
       Inr \<lparr>exercise_type = t, confidence_threshold = conf, rep_count = 0,
            current_phase = NEUTRAL, phase_history = [], posture_analyzer = t,
            thresholds = get_exercise_thresholds t, baseline_y = None\<rparr>)"

definition landmark_names :: "string list" where
  "landmark_names =
     [''nose'', ''left_eye_inner'', ''left_eye'', ''left_eye_outer'',
      ''right_eye_inner'', ''right_eye'', ''right_eye_outer'',
      ''left_ear'', ''right_ear'', ''mouth_left'', ''mouth_right'',
      ''left_shoulder'', ''right_shoulder'', ''left_elbow'', ''right_elbow'',
      ''left_wrist'', ''right_wrist'', ''left_pinky'', ''right_pinky'',
      ''left_index'', ''right_index'', ''left_thumb'', ''right_thumb'',
      ''left_hip'', ''right_hip'', ''left_knee'', ''right_knee'',
      ''left_ankle'', ''right_ankle'', ''left_heel'', ''right_heel'',
      ''left_foot_index'', ''right_foot_index'']"

text \<open>
  The MediaPipe result is \<open>None\<close> when no pose was detected, else the list
  \<^verbatim>\<open>mp_landmarks.landmark\<close>, of which x, y and visibility are read. The dict built from it
  is kept as the list of its items in insertion order (the names are distinct).
\<close>

type_synonym mp_landmarks = "PoseLandmark list option"

definition mediapipe_to_landmarks :: "mp_landmarks \<Rightarrow> (string \<times> PoseLandmark) list" where
  "mediapipe_to_landmarks mp =
     (case mp of
        None \<Rightarrow> []
      | Some ls \<Rightarrow>
          zip landmark_names
            (map (\<lambda>l. \<lparr>pos_x = pos_x l, pos_y = pos_y l, visibility = visibility l\<rparr>) ls))"

type_synonym frame_result = "int \<times> string \<times> Analysis"

definition result_of :: "RepCounter \<Rightarrow> Analysis \<Rightarrow> RepCounter \<times> frame_result" where
  \<comment> \<open>\<^verbatim>\<open>return self.rep_count, self.current_phase.value, analysis\<close>, with the state\<close>
  "result_of self analysis = (self, (rep_count self, phase_value (current_phase self), analysis))"

definition tag_analysis :: "RepCounter \<Rightarrow> Analysis \<Rightarrow> Analysis" where
  \<comment> \<open>\<^verbatim>\<open>analysis['rep_count'] = ...; analysis['phase'] = ...\<close>\<close>
  "tag_analysis self analysis =
     analysis\<lparr>an_rep_count := Some (rep_count self),
              an_phase := Some (phase_value (current_phase self))\<rparr>"

definition count_squats :: "RepCounter \<Rightarrow> landmarks \<Rightarrow> py_error + RepCounter \<times> frame_result" where
  "count_squats self lms =
     and_then (analyze_squat_posture lms) (\<lambda>analysis.
       case knee_angle analysis of
         None \<Rightarrow> Inr (result_of self analysis)
       | Some ka \<Rightarrow>
           and_then
             (case current_phase self of
                NEUTRAL \<Rightarrow>
                  and_then (getitem (map_of (thresholds self)) ''down_threshold'') (\<lambda>t.
                    Inr (if np_lt ka t then self\<lparr>current_phase := DOWN\<rparr> else self))
              | DOWN \<Rightarrow>
                  and_then (getitem (map_of (thresholds self)) ''up_threshold'') (\<lambda>t.
                    Inr (if np_gt ka t
                         then self\<lparr>current_phase := UP, rep_count := rep_count self + 1\<rparr>
                         else self))
              | UP \<Rightarrow>
                  and_then (getitem (map_of (thresholds self)) ''up_threshold'') (\<lambda>t.
                    Inr (if np_gt ka t then self\<lparr>current_phase := NEUTRAL\<rparr> else self))
              | EXTENDED \<Rightarrow> Inr self)
             (\<lambda>self'. Inr (result_of self' (tag_analysis self' analysis))))"

definition count_pushups :: "RepCounter \<Rightarrow> landmarks \<Rightarrow> py_error + RepCounter \<times> frame_result" where
  "count_pushups self lms =
     and_then (analyze_pushup_posture lms) (\<lambda>analysis.
       case elbow_angle analysis of
         None \<Rightarrow> Inr (result_of self analysis)
       | Some ea \<Rightarrow>
           and_then
             (case current_phase self of
                NEUTRAL \<Rightarrow>
                  and_then (getitem (map_of (thresholds self)) ''down_threshold'') (\<lambda>t.
                    Inr (if np_lt ea t then self\<lparr>current_phase := DOWN\<rparr> else self))
              | DOWN \<Rightarrow>
                  and_then (getitem (map_of (thresholds self)) ''up_threshold'') (\<lambda>t.
                    Inr (if np_gt ea t
                         then self\<lparr>current_phase := UP, rep_count := rep_count self + 1\<rparr>
                         else self))
              | UP \<Rightarrow>
                  and_then (getitem (map_of (thresholds self)) ''up_threshold'') (\<lambda>t.
                    Inr (if np_gt ea t then self\<lparr>current_phase := NEUTRAL\<rparr> else self))
              | EXTENDED \<Rightarrow> Inr self)
             (\<lambda>self'. Inr (result_of self' (tag_analysis self' analysis))))"

definition jump_analysis :: Analysis where
  "jump_analysis = empty_analysis\<lparr>score := Some 100, errors := Some []\<rparr>"

definition count_jumps :: "RepCounter \<Rightarrow> landmarks \<Rightarrow> py_error + RepCounter \<times> frame_result" where
  "count_jumps self lms =
     (let analysis = jump_analysis in
      if lms ''left_ankle'' = None \<or> lms ''right_ankle'' = None
      then Inr (result_of self analysis)
      else
        and_then (getitem lms ''left_ankle'') (\<lambda>left_ankle.
        and_then (getitem lms ''right_ankle'') (\<lambda>right_ankle.
          let avg_ankle_y = (pos_y left_ankle + pos_y right_ankle) / 2;
              base = (case baseline_y self of None \<Rightarrow> avg_ankle_y | Some b \<Rightarrow> b);
              self1 = self\<lparr>baseline_y := Some base\<rparr>;
              disp = base - avg_ankle_y
          in
          and_then
            (case current_phase self1 of
               NEUTRAL \<Rightarrow>
                 and_then (getitem (map_of (thresholds self1)) ''up_threshold'') (\<lambda>t.
                   Inr (if disp > t then self1\<lparr>current_phase := UP\<rparr> else self1))
             | UP \<Rightarrow>
                 and_then (getitem (map_of (thresholds self1)) ''down_threshold'') (\<lambda>t.
                   Inr (if disp < t
                        then self1\<lparr>current_phase := DOWN, rep_count := rep_count self1 + 1\<rparr>
                        else self1))
             | DOWN \<Rightarrow>
                 Inr (if \<bar>disp\<bar> < float64_0_02 then self1\<lparr>current_phase := NEUTRAL\<rparr> else self1)
             | EXTENDED \<Rightarrow> Inr self1)
            (\<lambda>self'.
               Inr (result_of self'
                      ((tag_analysis self' analysis)\<lparr>displacement := Some disp\<rparr>))))))"

definition update :: "RepCounter \<Rightarrow> mp_landmarks \<Rightarrow> py_error + RepCounter \<times> frame_result" where
  "update self mp =
     (let lms = mediapipe_to_landmarks mp in
      if lms = [] then Inr (result_of self empty_analysis)
      else if exercise_type self = SQUAT then count_squats self (map_of lms)
      else if exercise_type self = PUSHUP then count_pushups self (map_of lms)
      else if exercise_type self = JUMP then count_jumps self (map_of lms)
      else Inr (result_of self empty_analysis))"

definition reset :: "RepCounter \<Rightarrow> RepCounter" where
  "reset self =
     self\<lparr>rep_count := 0, current_phase := NEUTRAL, phase_history := [], baseline_y := None\<rparr>"

section \<open>Sessions\<close>

text \<open>
  The frame loop of the module's usage note: \<^verbatim>\<open>for frame in video_frames: counter.update(...)\<close>,
  collecting what each call returns. An exception ends the loop.
\<close>

fun updates :: "RepCounter \<Rightarrow> mp_landmarks list \<Rightarrow> py_error + RepCounter \<times> frame_result list" where
  "updates self [] = Inr (self, [])"
| "updates self (mp # mps) =
     and_then (update self mp) (\<lambda>(self1, out).
       and_then (updates self1 mps) (\<lambda>(self2, outs). Inr (self2, out # outs)))"

text \<open>The counters a caller can hold: built by the constructor, then updated and reset.\<close>

inductive reachable :: "RepCounter \<Rightarrow> bool" where
  init: "RepCounter_init s conf = Inr c \<Longrightarrow> reachable c"
| step: "reachable c \<Longrightarrow> update c mp = Inr (c', out) \<Longrightarrow> reachable c'"
| cleared: "reachable c \<Longrightarrow> reachable (reset c)"

definition well_formed :: "RepCounter \<Rightarrow> bool" where
  \<comment> \<open>what the constructor establishes and no method changes\<close>
  "well_formed c \<longleftrightarrow>
     thresholds c = get_exercise_thresholds (exercise_type c) \<and>
     posture_analyzer c = exercise_type c \<and> phase_history c = []"

definition session :: "string \<Rightarrow> real \<Rightarrow> mp_landmarks list \<Rightarrow> py_error + RepCounter \<times> frame_result list" where
  \<comment> \<open>\<^verbatim>\<open>counter = RepCounter(kind, conf)\<close>, then the frame loop\<close>
  "session kind conf mps = and_then (RepCounter_init kind conf) (\<lambda>c. updates c mps)"

definition new_counter :: "ExerciseType \<Rightarrow> real \<Rightarrow> RepCounter" where
  \<comment> \<open>the object the constructor returns for a known exercise kind\<close>
  "new_counter t conf =
     \<lparr>exercise_type = t, confidence_threshold = conf, rep_count = 0,
      current_phase = NEUTRAL, phase_history = [], posture_analyzer = t,
      thresholds = get_exercise_thresholds t, baseline_y = None\<rparr>"

section \<open>The specification's vocabulary\<close>

text \<open>
  The definitions of this section are not code of the repository. They restate, in the
  specification's words, what the source functions are compared with.
\<close>

definition angle_step :: "real \<Rightarrow> real \<Rightarrow> RepCounter \<Rightarrow> npfloat \<Rightarrow> RepCounter" where
  \<comment> \<open>the squat and push-up cycle for a down threshold \<open>d\<close> and an up threshold \<open>u\<close>\<close>
  "angle_step d u c a =
     (case current_phase c of
        NEUTRAL \<Rightarrow> if np_lt a d then c\<lparr>current_phase := DOWN\<rparr> else c
      | DOWN \<Rightarrow> if np_gt a u then c\<lparr>current_phase := UP, rep_count := rep_count c + 1\<rparr> else c
      | UP \<Rightarrow> if np_gt a u then c\<lparr>current_phase := NEUTRAL\<rparr> else c
      | EXTENDED \<Rightarrow> c)"

definition jump_step :: "real \<Rightarrow> real \<Rightarrow> RepCounter \<Rightarrow> real \<Rightarrow> RepCounter" where
  \<comment> \<open>the jump cycle on a displacement\<close>
  "jump_step d u c disp =
     (case current_phase c of
        NEUTRAL \<Rightarrow> if disp > u then c\<lparr>current_phase := UP\<rparr> else c
      | UP \<Rightarrow> if disp < d then c\<lparr>current_phase := DOWN, rep_count := rep_count c + 1\<rparr> else c
      | DOWN \<Rightarrow> if \<bar>disp\<bar> < float64_0_02 then c\<lparr>current_phase := NEUTRAL\<rparr> else c
      | EXTENDED \<Rightarrow> c)"

definition jump_base :: "RepCounter \<Rightarrow> real \<Rightarrow> real" where
  \<comment> \<open>the baseline in force for a frame whose average ankle height is \<open>avg\<close>\<close>
  "jump_base c avg = (case baseline_y c of None \<Rightarrow> avg | Some b \<Rightarrow> b)"

definition squat_report :: "npfloat \<Rightarrow> npfloat \<Rightarrow> Analysis" where
  \<comment> \<open>score and messages of a squat with knee angle \<open>ka\<close> and back angle \<open>ba\<close>\<close>
  "squat_report ka ba =
     empty_analysis
       \<lparr>score := Some (max 0 (100 - (if np_lt ka 70 then 10 else if np_gt ka 160 then 15 else 0)
                               - (if np_lt ba 160 then 20 else 0))),
        errors := Some ((if np_lt ka 70 then [''Squat too deep'']
                         else if np_gt ka 160 then [''Squat not deep enough''] else [])
                        @ (if np_lt ba 160 then [''Back bent forward''] else [])),
        knee_angle := Some ka, back_angle := Some ba\<rparr>"

definition pushup_report :: "npfloat \<Rightarrow> npfloat \<Rightarrow> Analysis" where
  \<comment> \<open>score and messages of a push-up with elbow angle \<open>ea\<close> and body angle \<open>ba\<close>\<close>
  "pushup_report ea ba =
     empty_analysis
       \<lparr>score := Some (max 0 (100 - (if np_gt ea 170 then 15 else if np_lt ea 45 then 10 else 0)
                               - (if np_lt ba 160 then 20 else 0))),
        errors := Some ((if np_gt ea 170 then [''Lower chest closer to ground'']
                         else if np_lt ea 45 then [''Chest too close to ground''] else [])
                        @ (if np_lt ba 160 then [''Keep body in straight line''] else [])),
        elbow_angle := Some ea, body_angle := Some ba\<rparr>"

fun cycle_next :: "ExerciseType \<Rightarrow> ExercisePhase \<Rightarrow> ExercisePhase" where
  \<comment> \<open>one step along the cycle of the exercise\<close>
  "cycle_next JUMP NEUTRAL = UP"
| "cycle_next JUMP UP = DOWN"
| "cycle_next JUMP DOWN = NEUTRAL"
| "cycle_next PULLUP p = p"
| "cycle_next t NEUTRAL = DOWN"
| "cycle_next t DOWN = UP"
| "cycle_next t UP = NEUTRAL"
| "cycle_next t EXTENDED = EXTENDED"

fun counted_edge :: "ExerciseType \<Rightarrow> ExercisePhase \<Rightarrow> ExercisePhase \<Rightarrow> bool" where
  \<comment> \<open>the transition on which a repetition is counted\<close>
  "counted_edge SQUAT p q = (p = DOWN \<and> q = UP)"
| "counted_edge PUSHUP p q = (p = DOWN \<and> q = UP)"
| "counted_edge JUMP p q = (p = UP \<and> q = DOWN)"
| "counted_edge PULLUP p q = False"

definition with_confidence ::
  "real \<Rightarrow> py_error + RepCounter \<times> 'a \<Rightarrow> py_error + RepCounter \<times> 'a" where
  \<comment> \<open>the same outcome, the stored confidence threshold replaced\<close>
  "with_confidence t r =
     (case r of Inl e \<Rightarrow> Inl e | Inr (c, outs) \<Rightarrow> Inr (c\<lparr>confidence_threshold := t\<rparr>, outs))"

definition one_step :: "RepCounter \<Rightarrow> RepCounter \<Rightarrow> bool" where
  \<comment> \<open>the rep count grows by at most 1, by 1 exactly on the counted transition, and the
     phase stays or moves one step along the cycle\<close>
  "one_step c c' \<longleftrightarrow>
     rep_count c \<le> rep_count c' \<and> rep_count c' \<le> rep_count c + 1 \<and>
     (rep_count c' = rep_count c + 1) =
       counted_edge (exercise_type c) (current_phase c) (current_phase c') \<and>
     (current_phase c' = current_phase c \<or>
      current_phase c' = cycle_next (exercise_type c) (current_phase c))"

definition outcome :: "RepCounter \<Rightarrow> RepCounter \<Rightarrow> bool" where
  \<comment> \<open>the counters one update can lead to\<close>
  "outcome c c' \<longleftrightarrow>
     c' = c \<or>
     (exercise_type c = SQUAT \<or> exercise_type c = PUSHUP) \<and> (\<exists>d u a. c' = angle_step d u c a) \<or>
     exercise_type c = JUMP \<and> (\<exists>d u b x. c' = jump_step d u (c\<lparr>baseline_y := b\<rparr>) x)"

section \<open>Sample frames\<close>

definition joint :: "real \<Rightarrow> real \<Rightarrow> real \<Rightarrow> PoseLandmark" where
  "joint px py v = \<lparr>pos_x = px, pos_y = py, visibility = v\<rparr>"

definition body_frame ::
  "PoseLandmark \<Rightarrow> PoseLandmark \<Rightarrow> PoseLandmark \<Rightarrow> PoseLandmark \<Rightarrow> PoseLandmark \<Rightarrow>
   PoseLandmark \<Rightarrow> PoseLandmark \<Rightarrow> mp_landmarks" where
  \<comment> \<open>a full 33-landmark detection; the joints not named sit at the origin\<close>
  "body_frame sh el wr hip knee la ra =
     (let z = joint 0 0 1 in
      Some [z, z, z, z, z, z, z, z, z, z, z, sh, z, el, z, wr, z, z, z, z, z, z, z,
            hip, z, knee, z, la, ra, z, z, z, z])"

definition torso_frame ::
  "PoseLandmark \<Rightarrow> PoseLandmark \<Rightarrow> PoseLandmark \<Rightarrow> PoseLandmark \<Rightarrow> mp_landmarks" where
  \<comment> \<open>a detection that stops after the left hip (24 landmarks): no knees, no ankles\<close>
  "torso_frame sh el wr hip =
     (let z = joint 0 0 1 in
      Some [z, z, z, z, z, z, z, z, z, z, z, sh, z, el, z, wr, z, z, z, z, z, z, z, hip])"

definition squat_pose :: "real \<Rightarrow> mp_landmarks" where
  \<comment> \<open>a side view with the knee at the origin and a knee angle of \<open>t\<close> degrees\<close>
  "squat_pose t =
     body_frame (joint 0 3 1) (joint 0 0 1) (joint 0 0 1)
       (joint (cos (t * pi / 180)) (sin (t * pi / 180)) 1) (joint 0 0 1)
       (joint 1 0 1) (joint 1 0 1)"

definition ankle_frame :: "real \<Rightarrow> real \<Rightarrow> mp_landmarks" where
  \<comment> \<open>a full detection with both ankles at height \<open>h\<close> and visibility \<open>v\<close>\<close>
  "ankle_frame h v =
     body_frame (joint 0 0 1) (joint 0 0 1) (joint 0 0 1) (joint 0 0 1) (joint 0 0 1)
       (joint 0 h v) (joint 1 h v)"

definition tiny_coord :: real where
  \<comment> \<open>a float64 whose square underflows\<close>
  "tiny_coord = 1 / 2 ^ 600"

section \<open>Basic facts\<close>

lemma and_then_Inr [simp]: "and_then (Inr v) f = f v"
  by (simp add: and_then_def)

lemma and_then_Inl [simp]: "and_then (Inl e) f = Inl e"
  by (simp add: and_then_def)

lemma getitem_Some [simp]: "d k = Some v \<Longrightarrow> getitem d k = Inr v"
  by (simp add: getitem_def)

lemma getitem_None [simp]: "d k = None \<Longrightarrow> getitem d k = Inl (KeyError k)"
  by (simp add: getitem_def)

lemma count_squats_eq:
  assumes "map_of (thresholds c) ''down_threshold'' = Some d"
    and "map_of (thresholds c) ''up_threshold'' = Some u"
    and "analyze_squat_posture lms = Inr a"
  shows "count_squats c lms =
           Inr (case knee_angle a of
                  None \<Rightarrow> result_of c a
                | Some ka \<Rightarrow> result_of (angle_step d u c ka) (tag_analysis (angle_step d u c ka) a))"
proof (cases "knee_angle a")
  case None
  then show ?thesis by (simp add: count_squats_def assms)
next
  case (Some ka)
  then show ?thesis
    by (cases "current_phase c") (simp_all add: count_squats_def assms angle_step_def)
qed

lemma count_pushups_eq:
  assumes "map_of (thresholds c) ''down_threshold'' = Some d"
    and "map_of (thresholds c) ''up_threshold'' = Some u"
    and "analyze_pushup_posture lms = Inr a"
  shows "count_pushups c lms =
           Inr (case elbow_angle a of
                  None \<Rightarrow> result_of c a
                | Some ea \<Rightarrow> result_of (angle_step d u c ea) (tag_analysis (angle_step d u c ea) a))"
proof (cases "elbow_angle a")
  case None
  then show ?thesis by (simp add: count_pushups_def assms)
next
  case (Some ea)
  then show ?thesis
    by (cases "current_phase c") (simp_all add: count_pushups_def assms angle_step_def)
qed

lemma count_jumps_missing:
  "lms ''left_ankle'' = None \<or> lms ''right_ankle'' = None \<Longrightarrow>
   count_jumps c lms = Inr (result_of c jump_analysis)"
  by (simp add: count_jumps_def)

lemma count_jumps_eq:
  assumes "map_of (thresholds c) ''down_threshold'' = Some d"
    and "map_of (thresholds c) ''up_threshold'' = Some u"
    and "lms ''left_ankle'' = Some la" and "lms ''right_ankle'' = Some ra"
    and "avg = (pos_y la + pos_y ra) / 2"
    and "c1 = c\<lparr>baseline_y := Some (jump_base c avg)\<rparr>"
    and "c2 = jump_step d u c1 (jump_base c avg - avg)"
  shows "count_jumps c lms =
           Inr (result_of c2 ((tag_analysis c2 jump_analysis)\<lparr>displacement := Some (jump_base c avg - avg)\<rparr>))"
  by (cases "current_phase c")
     (simp_all add: count_jumps_def assms jump_step_def jump_base_def Let_def)

lemma joint_sel [simp]:
  "pos_x (joint a b v) = a" "pos_y (joint a b v) = b" "visibility (joint a b v) = v"
  by (simp_all add: joint_def)

lemma reread [simp]:
  "\<lparr>pos_x = pos_x (l::PoseLandmark), pos_y = pos_y l, visibility = visibility l\<rparr> = l"
  by simp

lemma body_frame_nonempty: "mediapipe_to_landmarks (body_frame sh el wr hip knee la ra) \<noteq> []"
  by (simp add: mediapipe_to_landmarks_def body_frame_def landmark_names_def Let_def)

lemma body_frame_lookup:
  "map_of (mediapipe_to_landmarks (body_frame sh el wr hip knee la ra)) ''left_shoulder'' = Some sh"
  "map_of (mediapipe_to_landmarks (body_frame sh el wr hip knee la ra)) ''left_elbow'' = Some el"
  "map_of (mediapipe_to_landmarks (body_frame sh el wr hip knee la ra)) ''left_wrist'' = Some wr"
  "map_of (mediapipe_to_landmarks (body_frame sh el wr hip knee la ra)) ''left_hip'' = Some hip"
  "map_of (mediapipe_to_landmarks (body_frame sh el wr hip knee la ra)) ''left_knee'' = Some knee"
  "map_of (mediapipe_to_landmarks (body_frame sh el wr hip knee la ra)) ''left_ankle'' = Some la"
  "map_of (mediapipe_to_landmarks (body_frame sh el wr hip knee la ra)) ''right_ankle'' = Some ra"
  by (simp_all add: mediapipe_to_landmarks_def body_frame_def landmark_names_def Let_def)

lemma float64_0 [simp]: "float64 0 = Num 0"
  by (simp add: float64_def)

lemma float64_bounds: "(2::real) ^ 20 < 2 ^ 1024 - 2 ^ 970" "(1::real) / 2 ^ 1075 < 1 / 2 ^ 20"
  by simp_all

lemma float64_mid: "1 / 2 ^ 20 \<le> \<bar>r\<bar> \<Longrightarrow> \<bar>r\<bar> \<le> 2 ^ 20 \<Longrightarrow> float64 r = Num r"
  using float64_bounds unfolding float64_def by (smt (verit))

lemma float64_not_NaN [simp]: "float64 r \<noteq> NaN"
  by (simp add: float64_def)

lemma np_subtract_self [simp]: "np_subtract a a = Num 0"
  by (simp add: np_subtract_def)

lemma np_subtract_not_NaN [simp]: "np_subtract a b \<noteq> NaN"
  by (simp add: np_subtract_def)

lemma np_multiply_zero_left: "np_multiply (Num 0) v = Num 0 \<or> np_multiply (Num 0) v = NaN"
  by (cases v) simp_all

lemma np_multiply_zero_right: "np_multiply v (Num 0) = Num 0 \<or> np_multiply v (Num 0) = NaN"
  by (cases v) simp_all

lemma np_add_zero_or_NaN:
  "x = Num 0 \<or> x = NaN \<Longrightarrow> y = Num 0 \<or> y = NaN \<Longrightarrow> np_add x y = Num 0 \<or> np_add x y = NaN"
  by auto

lemma np_dot_zero_left: "np_dot (Num 0, Num 0) w = Num 0 \<or> np_dot (Num 0, Num 0) w = NaN"
  by (cases w) (simp add: np_add_zero_or_NaN np_multiply_zero_left)

lemma np_dot_zero_right: "np_dot w (Num 0, Num 0) = Num 0 \<or> np_dot w (Num 0, Num 0) = NaN"
  by (cases w) (simp add: np_add_zero_or_NaN np_multiply_zero_right)

lemma linalg_norm_zero [simp]: "linalg_norm (Num 0, Num 0) = Num 0"
  by (simp add: linalg_norm_def)

lemma np_divide_zero_or_NaN:
  "x = Num 0 \<or> x = NaN \<Longrightarrow> y = Num 0 \<or> y = NaN \<Longrightarrow> np_divide x y = NaN"
  by auto

lemma calculate_angle_degenerate:
  assumes "pos_x p2 = pos_x p1 \<and> pos_y p2 = pos_y p1 \<or> pos_x p2 = pos_x p3 \<and> pos_y p2 = pos_y p3"
  shows "calculate_angle p1 p2 p3 = NaN"
proof -
  define ba where "ba = (np_subtract (pos_x p1) (pos_x p2), np_subtract (pos_y p1) (pos_y p2))"
  define bc where "bc = (np_subtract (pos_x p3) (pos_x p2), np_subtract (pos_y p3) (pos_y p2))"
  have z: "ba = (Num 0, Num 0) \<or> bc = (Num 0, Num 0)"
    using assms by (auto simp: ba_def bc_def)
  have d: "np_dot ba bc = Num 0 \<or> np_dot ba bc = NaN"
    using z np_dot_zero_left [of bc] np_dot_zero_right [of ba] by auto
  have n: "np_multiply (linalg_norm ba) (linalg_norm bc) = Num 0 \<or>
      np_multiply (linalg_norm ba) (linalg_norm bc) = NaN"
    using z np_multiply_zero_left [of "linalg_norm bc"] np_multiply_zero_right [of "linalg_norm ba"]
    by auto
  have "np_divide (np_dot ba bc) (np_multiply (linalg_norm ba) (linalg_norm bc)) = NaN"
    using d n by (rule np_divide_zero_or_NaN)
  then show ?thesis
    by (simp add: calculate_angle_def Let_def ba_def bc_def)
qed

lemma float64_small [simp]:
  "float64 1 = Num 1" "float64 (- 1) = Num (- 1)" "float64 2 = Num 2" "float64 (- 2) = Num (- 2)"
  by (simp_all add: float64_mid)

lemma right_angle: "calculate_angle (joint 0 1 v1) (joint 0 0 v2) (joint 1 0 v3) = Num 90"
  by (simp add: calculate_angle_def linalg_norm_def np_subtract_def Let_def)

lemma straight_angle: "calculate_angle (joint 0 1 v1) (joint 0 0 v2) (joint 0 (-1) v3) = Num 180"
  by (simp add: calculate_angle_def linalg_norm_def np_subtract_def Let_def)

lemma float64_tiny_coord:
  "float64 tiny_coord = Num tiny_coord"
  "float64 (tiny_coord * tiny_coord) = Num 0"
  by (simp_all add: float64_def tiny_coord_def)

lemma underflow_angle:
  "calculate_angle (joint tiny_coord 0 v1) (joint 0 0 v2) (joint 0 tiny_coord v3) = NaN"
  by (simp add: calculate_angle_def linalg_norm_def np_subtract_def Let_def float64_tiny_coord)

lemma unit_angle_aux:
  assumes "c * c + n * n = (1::real)" and "1 / 8 \<le> \<bar>c\<bar>" and "1 / 8 \<le> \<bar>n\<bar>"
  shows "calculate_angle (joint c n v1) (joint 0 0 v2) (joint 1 0 v3) = Num (arccos c * (180 / pi))"
proof -
  have "c\<^sup>2 \<le> 1" "n\<^sup>2 \<le> 1"
    using assms(1) by (simp_all add: power2_eq_square) (smt (verit) zero_le_square)+
  then have b: "\<bar>c\<bar> \<le> 1" "\<bar>n\<bar> \<le> 1" by (simp_all add: abs_square_le_1)
  then have c: "- 1 \<le> c" "c \<le> 1" by simp_all
  have fc: "float64 c = Num c" "float64 n = Num n"
    using assms(2,3) b by (simp_all add: float64_mid)
  have "1 / 64 \<le> \<bar>c\<bar> * \<bar>c\<bar>" "1 / 64 \<le> \<bar>n\<bar> * \<bar>n\<bar>"
    using assms(2,3) mult_mono [of "1 / 8" "\<bar>c\<bar>" "1 / 8" "\<bar>c\<bar>"]
      mult_mono [of "1 / 8" "\<bar>n\<bar>" "1 / 8" "\<bar>n\<bar>"] by simp_all
  moreover have "\<bar>c\<bar> * \<bar>c\<bar> \<le> 1" "\<bar>n\<bar> * \<bar>n\<bar> \<le> 1"
    using b mult_mono [of "\<bar>c\<bar>" 1 "\<bar>c\<bar>" 1] mult_mono [of "\<bar>n\<bar>" 1 "\<bar>n\<bar>" 1] by simp_all
  ultimately have fs: "float64 (c * c) = Num (c * c)" "float64 (n * n) = Num (n * n)"
    by (simp_all add: float64_mid abs_mult)
  show ?thesis
    using c by (simp add: calculate_angle_def linalg_norm_def np_subtract_def Let_def fc fs assms(1))
qed

lemma sin_10_degrees: "1 / 8 \<le> sin (pi / 18)"
proof -
  have c12: "cos (pi / 12) \<le> 1" "cos (pi / 24) \<le> 1" by simp_all
  have s12: "0 \<le> sin (pi / 12)" "0 \<le> sin (pi / 24)"
    by (rule sin_ge_zero; simp)+
  have "sin (pi / 6) = 2 * sin (pi / 12) * cos (pi / 12)"
    using sin_double [of "pi / 12"] by simp
  also have "\<dots> \<le> 2 * sin (pi / 12) * 1"
    using s12 c12 by (intro mult_left_mono) simp_all
  finally have a: "1 / 4 \<le> sin (pi / 12)" by (simp add: sin_30)
  have "sin (pi / 12) = 2 * sin (pi / 24) * cos (pi / 24)"
    using sin_double [of "pi / 24"] by simp
  also have "\<dots> \<le> 2 * sin (pi / 24) * 1"
    using s12 c12 by (intro mult_left_mono) simp_all
  finally have "1 / 8 \<le> sin (pi / 24)" using a by simp
  also have "sin (pi / 24) \<le> sin (pi / 18)"
    by (rule sin_monotone_2pi_le) (simp_all add: field_simps)
  finally show ?thesis .
qed

lemma cos_10_degrees: "1 / 2 \<le> cos (pi / 18)"
proof -
  have "cos (pi / 3) \<le> cos (pi / 18)"
    by (rule cos_monotone_0_pi_le) simp_all
  then show ?thesis by (simp add: cos_60)
qed

lemma sample_angles:
  assumes "t = 60 \<or> t = 100 \<or> t = 170"
  shows "1 / 8 \<le> \<bar>cos (t * pi / 180)\<bar> \<and> 1 / 8 \<le> \<bar>sin (t * pi / 180)\<bar>"
proof -
  have a60: "(60::real) * pi / 180 = pi / 3" by simp
  have a100: "(100::real) * pi / 180 = pi / 2 + pi / 18" by simp
  have a170: "(170::real) * pi / 180 = pi - pi / 18" by simp
  have "1 \<le> sqrt 3"
    by simp
  then have s3: "1 / 8 \<le> sqrt 3 / 2"
    by linarith
  have 60: "1 / 8 \<le> \<bar>cos (60 * pi / 180)\<bar> \<and> 1 / 8 \<le> \<bar>sin (60 * pi / 180)\<bar>"
    unfolding a60 using s3 by (simp add: cos_60 sin_60)
  have q: "cos (pi / 2 + pi / 18) = - sin (pi / 18)" "sin (pi / 2 + pi / 18) = cos (pi / 18)"
    by (simp_all only: cos_add sin_add cos_pi_half sin_pi_half)
  have 100: "1 / 8 \<le> \<bar>cos (100 * pi / 180)\<bar> \<and> 1 / 8 \<le> \<bar>sin (100 * pi / 180)\<bar>"
    unfolding a100 q using sin_10_degrees cos_10_degrees by simp
  have 170: "1 / 8 \<le> \<bar>cos (170 * pi / 180)\<bar> \<and> 1 / 8 \<le> \<bar>sin (170 * pi / 180)\<bar>"
    unfolding a170 cos_pi_minus sin_pi_minus using sin_10_degrees cos_10_degrees by simp
  from assms 60 100 170 show ?thesis by blast
qed

lemma unit_angle:
  assumes "t = 60 \<or> t = 100 \<or> t = 170"
  shows "calculate_angle (joint (cos (t * pi / 180)) (sin (t * pi / 180)) v1) (joint 0 0 v2)
           (joint 1 0 v3) = Num t"
proof -
  have "0 \<le> t" "t \<le> 180" using assms by auto
  then have "0 \<le> t * pi / 180" "t * pi / 180 \<le> pi" by (simp_all add: field_simps)
  then have a: "arccos (cos (t * pi / 180)) = t * pi / 180" by (simp add: arccos_cos)
  have "(cos (t * pi / 180))\<^sup>2 + (sin (t * pi / 180))\<^sup>2 = 1" by simp
  then have "cos (t * pi / 180) * cos (t * pi / 180) + sin (t * pi / 180) * sin (t * pi / 180) = 1"
    by (simp only: power2_eq_square)
  from unit_angle_aux [OF this] sample_angles [OF assms] show ?thesis
    by (simp only: a) simp
qed

lemma clearly_visible_iff:
  "clearly_visible lms k \<longleftrightarrow> (\<exists>p. lms k = Some p \<and> 0.5 < visibility p)"
  by (simp add: clearly_visible_def split: option.splits)

lemma analyze_squat_posture_hidden:
  assumes "k \<in> set squat_required" and "\<not> clearly_visible lms k"
  shows "analyze_squat_posture lms = Inr not_visible_result"
proof -
  from assms have "\<not> list_all (clearly_visible lms) squat_required"
    by (auto simp: list_all_iff)
  then show ?thesis by (simp add: analyze_squat_posture_def)
qed

lemma analyze_pushup_posture_hidden:
  assumes "k \<in> set pushup_required" and "\<not> clearly_visible lms k"
  shows "analyze_pushup_posture lms = Inr not_visible_result"
proof -
  from assms have "\<not> list_all (clearly_visible lms) pushup_required"
    by (auto simp: list_all_iff)
  then show ?thesis by (simp add: analyze_pushup_posture_def)
qed

lemma analyze_squat_posture_visible:
  assumes "lms ''left_hip'' = Some hip" "lms ''left_knee'' = Some knee"
    and "lms ''left_ankle'' = Some ankle" "lms ''left_shoulder'' = Some shoulder"
    and "0.5 < visibility hip" "0.5 < visibility knee"
    and "0.5 < visibility ankle" "0.5 < visibility shoulder"
  shows "analyze_squat_posture lms =
           Inr (squat_report (calculate_angle hip knee ankle) (calculate_angle shoulder hip knee))"
proof -
  have "list_all (clearly_visible lms) squat_required"
    using assms by (simp add: squat_required_def clearly_visible_def)
  then show ?thesis
    by (simp add: analyze_squat_posture_def assms(1-4) Let_def squat_report_def)
qed

lemma analyze_pushup_posture_visible:
  assumes "lms ''left_shoulder'' = Some shoulder" "lms ''left_elbow'' = Some elbow"
    and "lms ''left_wrist'' = Some wrist" "lms ''left_hip'' = Some hip"
    and "0.5 < visibility shoulder" "0.5 < visibility elbow"
    and "0.5 < visibility wrist" "0.5 < visibility hip"
  shows "analyze_pushup_posture lms =
           Inr (pushup_report (calculate_angle shoulder elbow wrist)
                  (calculate_angle shoulder hip
                     (case lms ''left_knee'' of None \<Rightarrow> hip | Some knee \<Rightarrow> knee)))"
proof -
  have "list_all (clearly_visible lms) pushup_required"
    using assms by (simp add: pushup_required_def clearly_visible_def)
  then show ?thesis
    by (cases "lms ''left_knee''")
       (simp_all add: analyze_pushup_posture_def assms(1-4) Let_def pushup_report_def)
qed

lemma analyze_squat_posture_total: "\<exists>a. analyze_squat_posture lms = Inr a"
proof (cases "list_all (clearly_visible lms) squat_required")
  case True
  then obtain hip knee ankle shoulder where
    "lms ''left_hip'' = Some hip" "lms ''left_knee'' = Some knee"
    "lms ''left_ankle'' = Some ankle" "lms ''left_shoulder'' = Some shoulder"
    "0.5 < visibility hip" "0.5 < visibility knee"
    "0.5 < visibility ankle" "0.5 < visibility shoulder"
    by (auto simp: squat_required_def clearly_visible_iff)
  from analyze_squat_posture_visible [OF this] show ?thesis by blast
next
  case False
  then show ?thesis by (simp add: analyze_squat_posture_def)
qed

lemma analyze_pushup_posture_total: "\<exists>a. analyze_pushup_posture lms = Inr a"
proof (cases "list_all (clearly_visible lms) pushup_required")
  case True
  then obtain shoulder elbow wrist hip where
    "lms ''left_shoulder'' = Some shoulder" "lms ''left_elbow'' = Some elbow"
    "lms ''left_wrist'' = Some wrist" "lms ''left_hip'' = Some hip"
    "0.5 < visibility shoulder" "0.5 < visibility elbow"
    "0.5 < visibility wrist" "0.5 < visibility hip"
    by (auto simp: pushup_required_def clearly_visible_iff)
  from analyze_pushup_posture_visible [OF this] show ?thesis by blast
next
  case False
  then show ?thesis by (simp add: analyze_pushup_posture_def)
qed

lemma torso_frame_lookup:
  "map_of (mediapipe_to_landmarks (torso_frame sh el wr hip)) ''left_shoulder'' = Some sh"
  "map_of (mediapipe_to_landmarks (torso_frame sh el wr hip)) ''left_elbow'' = Some el"
  "map_of (mediapipe_to_landmarks (torso_frame sh el wr hip)) ''left_wrist'' = Some wr"
  "map_of (mediapipe_to_landmarks (torso_frame sh el wr hip)) ''left_hip'' = Some hip"
  "map_of (mediapipe_to_landmarks (torso_frame sh el wr hip)) ''left_knee'' = None"
  by (simp_all add: mediapipe_to_landmarks_def torso_frame_def landmark_names_def Let_def)

lemma RepCounter_init_known:
  "RepCounter_init ''squat'' conf = Inr (new_counter SQUAT conf)"
  "RepCounter_init ''pushup'' conf = Inr (new_counter PUSHUP conf)"
  "RepCounter_init ''jump'' conf = Inr (new_counter JUMP conf)"
  "RepCounter_init ''pullup'' conf = Inr (new_counter PULLUP conf)"
  by (simp_all add: RepCounter_init_def ExerciseType_of_def new_counter_def)

lemma update_unclear_squat:
  assumes "exercise_type c = SQUAT"
    and "analyze_squat_posture (map_of (mediapipe_to_landmarks mp)) = Inr not_visible_result"
  shows "\<exists>an. update c mp = Inr (c, (rep_count c, phase_value (current_phase c), an))"
  using assms
  by (simp add: update_def Let_def result_of_def count_squats_def not_visible_result_def
      empty_analysis_def)

lemma update_unclear_pushup:
  assumes "exercise_type c = PUSHUP"
    and "analyze_pushup_posture (map_of (mediapipe_to_landmarks mp)) = Inr not_visible_result"
  shows "\<exists>an. update c mp = Inr (c, (rep_count c, phase_value (current_phase c), an))"
  using assms
  by (simp add: update_def Let_def result_of_def count_pushups_def not_visible_result_def
      empty_analysis_def)

lemma hidden_not_clearly_visible:
  "lms k = None \<or> (\<exists>p. lms k = Some p \<and> visibility p \<le> 0.5) \<Longrightarrow> \<not> clearly_visible lms k"
  by (auto simp: clearly_visible_def)

lemma right_angle_at_hip:
  "calculate_angle (joint 1 1 v1) (joint 0 1 v2) (joint 0 0 v3) = Num 90"
  by (simp add: calculate_angle_def linalg_norm_def np_subtract_def Let_def)

lemma float64_literal_signs [simp]:
  "0 < float64_0_1" "\<not> float64_0_1 < 0" "\<not> float64_0_1 \<le> 0"
  "0 < float64_0_05" "\<not> float64_0_05 < 0" "\<not> float64_0_05 \<le> 0"
  "0 < float64_0_02" "\<not> float64_0_02 < 0" "\<not> float64_0_02 \<le> 0"
  by (simp_all add: float64_0_1_def float64_0_05_def float64_0_02_def)

lemma thresholds_lookup:
  "map_of (get_exercise_thresholds SQUAT) ''down_threshold'' = Some 110"
  "map_of (get_exercise_thresholds SQUAT) ''up_threshold'' = Some 160"
  "map_of (get_exercise_thresholds PUSHUP) ''down_threshold'' = Some 90"
  "map_of (get_exercise_thresholds PUSHUP) ''up_threshold'' = Some 160"
  "map_of (get_exercise_thresholds JUMP) ''down_threshold'' = Some (- float64_0_05)"
  "map_of (get_exercise_thresholds JUMP) ''up_threshold'' = Some float64_0_1"
  by simp_all

lemma update_empty:
  "mediapipe_to_landmarks mp = [] \<Longrightarrow> update c mp = Inr (result_of c empty_analysis)"
  by (simp add: update_def)

lemma update_pullup:
  "exercise_type c = PULLUP \<Longrightarrow> update c mp = Inr (result_of c empty_analysis)"
  by (simp add: update_def Let_def)

lemma update_squat_eq:
  assumes "exercise_type c = SQUAT" and "thresholds c = get_exercise_thresholds SQUAT"
    and "mediapipe_to_landmarks mp \<noteq> []"
    and "analyze_squat_posture (map_of (mediapipe_to_landmarks mp)) = Inr a"
  shows "update c mp =
           Inr (case knee_angle a of
                  None \<Rightarrow> result_of c a
                | Some ka \<Rightarrow> result_of (angle_step 110 160 c ka)
                              (tag_analysis (angle_step 110 160 c ka) a))"
proof -
  have "update c mp = count_squats c (map_of (mediapipe_to_landmarks mp))"
    using assms(1,3) by (simp add: update_def)
  also have "\<dots> = Inr (case knee_angle a of
                  None \<Rightarrow> result_of c a
                | Some ka \<Rightarrow> result_of (angle_step 110 160 c ka)
                              (tag_analysis (angle_step 110 160 c ka) a))"
    by (rule count_squats_eq) (simp_all only: assms(2,4) thresholds_lookup)
  finally show ?thesis .
qed

lemma update_pushup_eq:
  assumes "exercise_type c = PUSHUP" and "thresholds c = get_exercise_thresholds PUSHUP"
    and "mediapipe_to_landmarks mp \<noteq> []"
    and "analyze_pushup_posture (map_of (mediapipe_to_landmarks mp)) = Inr a"
  shows "update c mp =
           Inr (case elbow_angle a of
                  None \<Rightarrow> result_of c a
                | Some ea \<Rightarrow> result_of (angle_step 90 160 c ea)
                              (tag_analysis (angle_step 90 160 c ea) a))"
proof -
  have "update c mp = count_pushups c (map_of (mediapipe_to_landmarks mp))"
    using assms(1,3) by (simp add: update_def)
  also have "\<dots> = Inr (case elbow_angle a of
                  None \<Rightarrow> result_of c a
                | Some ea \<Rightarrow> result_of (angle_step 90 160 c ea)
                              (tag_analysis (angle_step 90 160 c ea) a))"
    by (rule count_pushups_eq) (simp_all only: assms(2,4) thresholds_lookup)
  finally show ?thesis .
qed

lemma update_jump_missing:
  assumes "exercise_type c = JUMP" and "mediapipe_to_landmarks mp \<noteq> []"
    and "map_of (mediapipe_to_landmarks mp) ''left_ankle'' = None \<or>
         map_of (mediapipe_to_landmarks mp) ''right_ankle'' = None"
  shows "update c mp = Inr (result_of c jump_analysis)"
proof -
  have "update c mp = count_jumps c (map_of (mediapipe_to_landmarks mp))"
    using assms(1,2) by (simp add: update_def)
  with count_jumps_missing [OF assms(3)] show ?thesis by simp
qed

lemma update_jump_eq:
  assumes "exercise_type c = JUMP" and "thresholds c = get_exercise_thresholds JUMP"
    and "map_of (mediapipe_to_landmarks mp) ''left_ankle'' = Some la"
    and "map_of (mediapipe_to_landmarks mp) ''right_ankle'' = Some ra"
    and "avg = (pos_y la + pos_y ra) / 2"
    and "c2 = jump_step (- float64_0_05) float64_0_1 (c\<lparr>baseline_y := Some (jump_base c avg)\<rparr>)
                (jump_base c avg - avg)"
  shows "update c mp =
           Inr (result_of c2
                  ((tag_analysis c2 jump_analysis)\<lparr>displacement := Some (jump_base c avg - avg)\<rparr>))"
proof -
  have "mediapipe_to_landmarks mp \<noteq> []"
    using assms(3) by auto
  then have "update c mp = count_jumps c (map_of (mediapipe_to_landmarks mp))"
    using assms(1) by (simp add: update_def)
  also have "\<dots> = Inr (result_of c2
                  ((tag_analysis c2 jump_analysis)\<lparr>displacement := Some (jump_base c avg - avg)\<rparr>))"
    by (rule count_jumps_eq [OF _ _ assms(3,4,5) refl assms(6)])
       (simp_all only: assms(2) thresholds_lookup)
  finally show ?thesis .
qed

lemma knee_angle_squat_report [simp]: "knee_angle (squat_report ka ba) = Some ka"
  by (simp add: squat_report_def)

lemma squat_pose_analysis:
  assumes "t = 60 \<or> t = 100 \<or> t = 170"
  shows "analyze_squat_posture (map_of (mediapipe_to_landmarks (squat_pose t))) =
           Inr (squat_report (Num t)
                  (calculate_angle (joint 0 3 1)
                     (joint (cos (t * pi / 180)) (sin (t * pi / 180)) 1) (joint 0 0 1)))"
proof -
  have "analyze_squat_posture (map_of (mediapipe_to_landmarks (squat_pose t))) =
           Inr (squat_report
                  (calculate_angle (joint (cos (t * pi / 180)) (sin (t * pi / 180)) 1)
                     (joint 0 0 1) (joint 1 0 1))
                  (calculate_angle (joint 0 3 1)
                     (joint (cos (t * pi / 180)) (sin (t * pi / 180)) 1) (joint 0 0 1)))"
    unfolding squat_pose_def
    by (rule analyze_squat_posture_visible) (simp_all add: body_frame_lookup)
  then show ?thesis
    by (simp only: unit_angle [OF assms])
qed

lemma analyze_squat_posture_no_landmarks:
  "analyze_squat_posture (\<lambda>k. None) = Inr not_visible_result"
  by (simp add: analyze_squat_posture_def squat_required_def clearly_visible_def)

lemma knee_angle_needs_landmarks:
  assumes "analyze_squat_posture (map_of (mediapipe_to_landmarks mp)) = Inr a"
    and "knee_angle a = Some ka"
  shows "mediapipe_to_landmarks mp \<noteq> []"
proof
  assume "mediapipe_to_landmarks mp = []"
  with assms(1) have "a = not_visible_result"
    by (simp add: analyze_squat_posture_no_landmarks)
  with assms(2) show False
    by (simp add: not_visible_result_def empty_analysis_def)
qed

lemma update_squat_angle:
  assumes "exercise_type c = SQUAT" and "thresholds c = get_exercise_thresholds SQUAT"
    and "analyze_squat_posture (map_of (mediapipe_to_landmarks mp)) = Inr a"
    and "knee_angle a = Some ka"
  shows "update c mp =
           Inr (result_of (angle_step 110 160 c ka) (tag_analysis (angle_step 110 160 c ka) a))"
  using update_squat_eq [OF assms(1,2) knee_angle_needs_landmarks [OF assms(3,4)] assms(3)]
  by (simp add: assms(4))

lemma angle_step_config:
  "exercise_type (angle_step d u c a) = exercise_type c"
  "thresholds (angle_step d u c a) = thresholds c"
  "confidence_threshold (angle_step d u c a) = confidence_threshold c"
  "posture_analyzer (angle_step d u c a) = posture_analyzer c"
  "phase_history (angle_step d u c a) = phase_history c"
  "baseline_y (angle_step d u c a) = baseline_y c"
  by (cases "current_phase c"; simp add: angle_step_def)+

lemma jump_step_config:
  "exercise_type (jump_step d u c x) = exercise_type c"
  "thresholds (jump_step d u c x) = thresholds c"
  "confidence_threshold (jump_step d u c x) = confidence_threshold c"
  "posture_analyzer (jump_step d u c x) = posture_analyzer c"
  "phase_history (jump_step d u c x) = phase_history c"
  "baseline_y (jump_step d u c x) = baseline_y c"
  by (cases "current_phase c"; simp add: jump_step_def)+

lemma one_step_refl: "one_step c c"
  by (cases "exercise_type c") (simp_all add: one_step_def)

lemma one_step_angle_step:
  assumes "exercise_type c = SQUAT \<or> exercise_type c = PUSHUP"
  shows "one_step c (angle_step d u c a)"
  using assms by (cases "current_phase c") (auto simp: one_step_def angle_step_def)

lemma one_step_jump_step:
  assumes "exercise_type c = JUMP"
  shows "one_step c (jump_step d u (c\<lparr>baseline_y := b\<rparr>) x)"
  using assms by (cases "current_phase c") (auto simp: one_step_def jump_step_def)

lemma update_outcome:
  assumes "thresholds c = get_exercise_thresholds (exercise_type c)"
  shows "\<exists>c' an. update c mp = Inr (result_of c' an) \<and> outcome c c'"
proof (cases "mediapipe_to_landmarks mp = []")
  case True
  then show ?thesis using update_empty [of mp c] by (auto simp: outcome_def)
next
  case ne: False
  show ?thesis
  proof (cases "exercise_type c")
    case SQUAT
    obtain a where a: "analyze_squat_posture (map_of (mediapipe_to_landmarks mp)) = Inr a"
      using analyze_squat_posture_total by blast
    from SQUAT assms have "thresholds c = get_exercise_thresholds SQUAT" by simp
    from update_squat_eq [OF SQUAT this ne a] SQUAT show ?thesis
      by (cases "knee_angle a") (auto simp: outcome_def)
  next
    case PUSHUP
    obtain a where a: "analyze_pushup_posture (map_of (mediapipe_to_landmarks mp)) = Inr a"
      using analyze_pushup_posture_total by blast
    from PUSHUP assms have "thresholds c = get_exercise_thresholds PUSHUP" by simp
    from update_pushup_eq [OF PUSHUP this ne a] PUSHUP show ?thesis
      by (cases "elbow_angle a") (auto simp: outcome_def)
  next
    case JUMP
    from JUMP assms have t: "thresholds c = get_exercise_thresholds JUMP" by simp
    show ?thesis
    proof (cases "map_of (mediapipe_to_landmarks mp) ''left_ankle'' = None \<or>
         map_of (mediapipe_to_landmarks mp) ''right_ankle'' = None")
      case True
      from update_jump_missing [OF JUMP ne True] show ?thesis by (auto simp: outcome_def)
    next
      case False
      then obtain la ra where
        "map_of (mediapipe_to_landmarks mp) ''left_ankle'' = Some la"
        "map_of (mediapipe_to_landmarks mp) ''right_ankle'' = Some ra" by auto
      from update_jump_eq [OF JUMP t this refl refl] JUMP show ?thesis
        unfolding outcome_def by blast
    qed
  next
    case PULLUP
    then show ?thesis using update_pullup [of c mp] by (auto simp: outcome_def)
  qed
qed

lemma outcome_one_step: "outcome c c' \<Longrightarrow> one_step c c'"
  unfolding outcome_def
  using one_step_refl [of c] one_step_angle_step [of c] one_step_jump_step [of c]
  by blast

lemma outcome_well_formed: "outcome c c' \<Longrightarrow> well_formed c \<Longrightarrow> well_formed c'"
  unfolding outcome_def well_formed_def
  by (auto simp: angle_step_config jump_step_config)

lemma outcome_config:
  "outcome c c' \<Longrightarrow>
     exercise_type c' = exercise_type c \<and> confidence_threshold c' = confidence_threshold c"
  unfolding outcome_def
  by (auto simp: angle_step_config jump_step_config)

lemma result_of_inject: "result_of c an = (c', out) \<Longrightarrow> c' = c"
  by (simp add: result_of_def)

lemma reachable_well_formed: "reachable c \<Longrightarrow> well_formed c"
proof (induction rule: reachable.induct)
  case (init s conf c)
  then show ?case
    by (auto simp: RepCounter_init_def ExerciseType_of_def well_formed_def split: if_splits)
next
  case (step c mp c' out)
  from step.IH have "thresholds c = get_exercise_thresholds (exercise_type c)"
    by (simp add: well_formed_def)
  from update_outcome [OF this, of mp] obtain c2 an where
    "update c mp = Inr (result_of c2 an)" "outcome c c2" by blast
  with step.hyps(2) have "outcome c c'" by (auto dest: result_of_inject)
  then show ?case using step.IH by (rule outcome_well_formed)
next
  case (cleared c)
  then show ?case by (simp add: well_formed_def reset_def)
qed

lemma update_reachable:
  assumes "reachable c"
  shows "\<exists>c' an. update c mp = Inr (c', (rep_count c', phase_value (current_phase c'), an)) \<and>
           reachable c' \<and> one_step c c' \<and> exercise_type c' = exercise_type c"
proof -
  from reachable_well_formed [OF assms]
  have "thresholds c = get_exercise_thresholds (exercise_type c)"
    by (simp add: well_formed_def)
  from update_outcome [OF this, of mp] obtain c' an where
    u: "update c mp = Inr (result_of c' an)" and o: "outcome c c'" by blast
  from u have u': "update c mp = Inr (c', (rep_count c', phase_value (current_phase c'), an))"
    by (simp add: result_of_def)
  from assms u' have "reachable c'" by (rule reachable.step)
  with u' o show ?thesis
    using outcome_one_step [OF o] outcome_config [OF o] by blast
qed

lemma updates_reachable:
  assumes "reachable c"
  shows "\<exists>c' outs. updates c mps = Inr (c', outs) \<and> reachable c' \<and>
           length outs = length mps \<and>
           rep_count c \<le> rep_count c' \<and> rep_count c' \<le> rep_count c + int (length mps) \<and>
           sorted (map fst outs) \<and>
           (\<forall>n \<in> set (map fst outs). rep_count c \<le> n \<and> n \<le> rep_count c')"
  using assms
proof (induction mps arbitrary: c)
  case Nil
  then show ?case by simp
next
  case (Cons mp mps)
  from update_reachable [OF Cons.prems, of mp] obtain c1 an where
    u: "update c mp = Inr (c1, (rep_count c1, phase_value (current_phase c1), an))"
    and r: "reachable c1" and s: "one_step c c1" by blast
  from Cons.IH [OF r] obtain c2 outs where
    us: "updates c1 mps = Inr (c2, outs)" and r2: "reachable c2"
    and l: "length outs = length mps"
    and m: "rep_count c1 \<le> rep_count c2" "rep_count c2 \<le> rep_count c1 + int (length mps)"
    and so: "sorted (map fst outs)"
    and b: "\<forall>n \<in> set (map fst outs). rep_count c1 \<le> n \<and> n \<le> rep_count c2" by blast
  from s have s': "rep_count c \<le> rep_count c1" "rep_count c1 \<le> rep_count c + 1"
    by (simp_all add: one_step_def)
  have "updates c (mp # mps) =
      Inr (c2, (rep_count c1, phase_value (current_phase c1), an) # outs)"
    by (simp add: u us)
  moreover have "sorted (map fst ((rep_count c1, phase_value (current_phase c1), an) # outs))"
    using so b by simp
  moreover have "\<forall>n \<in> set (map fst ((rep_count c1, phase_value (current_phase c1), an) # outs)).
      rep_count c \<le> n \<and> n \<le> rep_count c2"
    using b s' m by auto
  moreover have "rep_count c \<le> rep_count c2" "rep_count c2 \<le> rep_count c + int (length (mp # mps))"
    using s' m by simp_all
  ultimately show ?case using r2 l by auto
qed

lemma new_counter_sel [simp]:
  "exercise_type (new_counter t conf) = t"
  "confidence_threshold (new_counter t conf) = conf"
  "rep_count (new_counter t conf) = 0"
  "current_phase (new_counter t conf) = NEUTRAL"
  "phase_history (new_counter t conf) = []"
  "posture_analyzer (new_counter t conf) = t"
  "thresholds (new_counter t conf) = get_exercise_thresholds t"
  "baseline_y (new_counter t conf) = None"
  by (simp_all add: new_counter_def)


lemma update_new_jump_counter:
  assumes "map_of (mediapipe_to_landmarks mp) ''left_ankle'' = Some la"
    and "map_of (mediapipe_to_landmarks mp) ''right_ankle'' = Some ra"
  shows "update (new_counter JUMP conf) mp =
           Inr (result_of ((new_counter JUMP conf)\<lparr>baseline_y := Some ((pos_y la + pos_y ra) / 2)\<rparr>)
                  ((tag_analysis (new_counter JUMP conf) jump_analysis)\<lparr>displacement := Some 0\<rparr>))"
proof -
  have "update (new_counter JUMP conf) mp =
      Inr (result_of
             (jump_step (- float64_0_05) float64_0_1
                ((new_counter JUMP conf)
                   \<lparr>baseline_y := Some (jump_base (new_counter JUMP conf) ((pos_y la + pos_y ra) / 2))\<rparr>)
                (jump_base (new_counter JUMP conf) ((pos_y la + pos_y ra) / 2) - (pos_y la + pos_y ra) / 2))
             ((tag_analysis
                 (jump_step (- float64_0_05) float64_0_1
                    ((new_counter JUMP conf)
                       \<lparr>baseline_y := Some (jump_base (new_counter JUMP conf) ((pos_y la + pos_y ra) / 2))\<rparr>)
                    (jump_base (new_counter JUMP conf) ((pos_y la + pos_y ra) / 2) - (pos_y la + pos_y ra) / 2))
                 jump_analysis)
                \<lparr>displacement := Some (jump_base (new_counter JUMP conf) ((pos_y la + pos_y ra) / 2)
                    - (pos_y la + pos_y ra) / 2)\<rparr>))"
    by (rule update_jump_eq [OF _ _ assms refl refl]) (simp_all add: new_counter_def)
  then show ?thesis
    by (simp add: jump_step_def jump_base_def new_counter_def tag_analysis_def)
qed

lemma ankle_frame_lookup:
  "map_of (mediapipe_to_landmarks (ankle_frame h v)) ''left_ankle'' = Some (joint 0 h v)"
  "map_of (mediapipe_to_landmarks (ankle_frame h v)) ''right_ankle'' = Some (joint 1 h v)"
  by (simp_all add: ankle_frame_def body_frame_lookup)

lemma reachable_new_counter:
  "reachable (new_counter SQUAT conf)" "reachable (new_counter PUSHUP conf)"
  "reachable (new_counter JUMP conf)" "reachable (new_counter PULLUP conf)"
  by (rule reachable.init, rule RepCounter_init_known)+

lemma update_new_squat_counter_down:
  "update (new_counter SQUAT conf) (squat_pose 100) =
     Inr ((new_counter SQUAT conf)\<lparr>current_phase := DOWN\<rparr>,
          (0, ''down'',
           tag_analysis ((new_counter SQUAT conf)\<lparr>current_phase := DOWN\<rparr>)
             (squat_report (Num 100)
                (calculate_angle (joint 0 3 1)
                   (joint (cos (100 * pi / 180)) (sin (100 * pi / 180)) 1) (joint 0 0 1)))))"
proof -
  have p: "analyze_squat_posture (map_of (mediapipe_to_landmarks (squat_pose 100))) =
      Inr (squat_report (Num 100)
             (calculate_angle (joint 0 3 1)
                (joint (cos (100 * pi / 180)) (sin (100 * pi / 180)) 1) (joint 0 0 1)))"
    by (rule squat_pose_analysis) simp_all
  have s: "angle_step 110 160 (new_counter SQUAT conf) (Num 100) =
      (new_counter SQUAT conf)\<lparr>current_phase := DOWN\<rparr>"
    by (simp add: angle_step_def)
  from update_squat_angle [OF _ _ p knee_angle_squat_report, of "new_counter SQUAT conf"]
  show ?thesis
    by (simp add: s result_of_def)
qed

lemma count_squats_confidence:
  "count_squats (c\<lparr>confidence_threshold := t\<rparr>) lms = with_confidence t (count_squats c lms)"
proof (cases "analyze_squat_posture lms")
  case (Inl e)
  then show ?thesis by (simp add: count_squats_def with_confidence_def)
next
  case (Inr a)
  show ?thesis
  proof (cases "knee_angle a")
    case None
    then show ?thesis
      by (simp add: count_squats_def Inr with_confidence_def result_of_def)
  next
    case (Some ka)
    show ?thesis
      by (cases "current_phase c"; cases "map_of (thresholds c) ''down_threshold''";
          cases "map_of (thresholds c) ''up_threshold''")
         (simp_all add: count_squats_def Inr Some with_confidence_def result_of_def
            tag_analysis_def)
  qed
qed

lemma count_pushups_confidence:
  "count_pushups (c\<lparr>confidence_threshold := t\<rparr>) lms = with_confidence t (count_pushups c lms)"
proof (cases "analyze_pushup_posture lms")
  case (Inl e)
  then show ?thesis by (simp add: count_pushups_def with_confidence_def)
next
  case (Inr a)
  show ?thesis
  proof (cases "elbow_angle a")
    case None
    then show ?thesis
      by (simp add: count_pushups_def Inr with_confidence_def result_of_def)
  next
    case (Some ea)
    show ?thesis
      by (cases "current_phase c"; cases "map_of (thresholds c) ''down_threshold''";
          cases "map_of (thresholds c) ''up_threshold''")
         (simp_all add: count_pushups_def Inr Some with_confidence_def result_of_def
            tag_analysis_def)
  qed
qed

lemma count_jumps_confidence:
  "count_jumps (c\<lparr>confidence_threshold := t\<rparr>) lms = with_confidence t (count_jumps c lms)"
proof (cases "lms ''left_ankle'' = None \<or> lms ''right_ankle'' = None")
  case True
  then show ?thesis
    by (simp add: count_jumps_def with_confidence_def result_of_def)
next
  case False
  then obtain la ra where a: "lms ''left_ankle'' = Some la" "lms ''right_ankle'' = Some ra"
    by auto
  show ?thesis
    by (cases "current_phase c"; cases "map_of (thresholds c) ''down_threshold''";
        cases "map_of (thresholds c) ''up_threshold''")
       (simp_all add: count_jumps_def a with_confidence_def result_of_def tag_analysis_def
          Let_def)
qed

lemma update_confidence:
  "update (c\<lparr>confidence_threshold := t\<rparr>) mp = with_confidence t (update c mp)"
  by (simp add: update_def Let_def count_squats_confidence count_pushups_confidence
      count_jumps_confidence)
     (simp add: with_confidence_def result_of_def)

lemma with_confidence_simps [simp]:
  "with_confidence t (Inl e) = Inl e"
  "with_confidence t (Inr (c, outs)) = Inr (c\<lparr>confidence_threshold := t\<rparr>, outs)"
  by (simp_all add: with_confidence_def)

lemma updates_confidence:
  "updates (c\<lparr>confidence_threshold := t\<rparr>) mps = with_confidence t (updates c mps)"
proof (induction mps arbitrary: c)
  case Nil
  show ?case by simp
next
  case (Cons mp mps)
  show ?case
  proof (cases "update c mp")
    case (Inl e)
    then show ?thesis by (simp add: update_confidence)
  next
    case (Inr r)
    obtain c1 out where r: "r = (c1, out)" by (cases r)
    show ?thesis
    proof (cases "updates c1 mps")
      case (Inl e)
      then show ?thesis by (simp add: update_confidence Inr r Cons.IH)
    next
      case inr: (Inr rs)
      obtain c2 outs where rs: "rs = (c2, outs)" by (cases rs)
      show ?thesis by (simp add: update_confidence Inr r Cons.IH inr rs)
    qed
  qed
qed

lemma session_confidence:
  "session kind t1 mps = with_confidence t1 (session kind t2 mps)"
proof (cases "ExerciseType_of kind")
  case (Inl e)
  then show ?thesis by (simp add: session_def RepCounter_init_def)
next
  case (Inr k)
  have "updates (new_counter k t1) mps = with_confidence t1 (updates (new_counter k t2) mps)"
    using updates_confidence [where c = "new_counter k t2" and t = t1 and mps = mps] by (simp add: new_counter_def)
  then show ?thesis
    by (simp add: session_def RepCounter_init_def Inr new_counter_def)
qed

lemma session_squat_down:
  "session ''squat'' conf [squat_pose 100] =
     Inr ((new_counter SQUAT conf)\<lparr>current_phase := DOWN\<rparr>,
          [(0, ''down'',
            tag_analysis ((new_counter SQUAT conf)\<lparr>current_phase := DOWN\<rparr>)
              (squat_report (Num 100)
                 (calculate_angle (joint 0 3 1)
                    (joint (cos (100 * pi / 180)) (sin (100 * pi / 180)) 1) (joint 0 0 1))))])"
  by (simp add: session_def RepCounter_init_known update_new_squat_counter_down)

lemma session_unknown_kind: "session ''yoga'' conf mps = Inl (ValueError ''yoga'')"
  by (simp add: session_def RepCounter_init_def ExerciseType_of_def)

lemma torso_frame_no_ankles:
  "map_of (mediapipe_to_landmarks (torso_frame sh el wr hip)) ''left_ankle'' = None"
  "map_of (mediapipe_to_landmarks (torso_frame sh el wr hip)) ''right_ankle'' = None"
  "mediapipe_to_landmarks (torso_frame sh el wr hip) \<noteq> []"
  by (simp_all add: mediapipe_to_landmarks_def torso_frame_def landmark_names_def Let_def)

lemma jump_analysis_fields:
  "jump_analysis =
     \<lparr>score = Some 100, errors = Some [], knee_angle = None, back_angle = None,
      elbow_angle = None, body_angle = None, an_rep_count = None, an_phase = None,
      displacement = None\<rparr>"
  by (simp add: jump_analysis_def empty_analysis_def)

lemma tagged_jump_analysis:
  "score ((tag_analysis c jump_analysis)\<lparr>displacement := d\<rparr>) = Some 100"
  "errors ((tag_analysis c jump_analysis)\<lparr>displacement := d\<rparr>) = Some []"
  by (simp_all add: tag_analysis_def jump_analysis_def)

lemma mediapipe_to_landmarks_empty:
  "mediapipe_to_landmarks mp = [] \<longleftrightarrow> mp = None \<or> mp = Some []"
  by (cases mp) (simp_all add: mediapipe_to_landmarks_def landmark_names_def)

lemma empty_analysis_fields:
  "empty_analysis =
     \<lparr>score = None, errors = None, knee_angle = None, back_angle = None,
      elbow_angle = None, body_angle = None, an_rep_count = None, an_phase = None,
      displacement = None\<rparr>"
  by (simp add: empty_analysis_def)

lemma update_jump_up:
  "update ((new_counter JUMP conf)\<lparr>baseline_y := Some (1 / 2)\<rparr>) (ankle_frame (1 / 4) 1) =
     Inr ((new_counter JUMP conf)\<lparr>baseline_y := Some (1 / 2), current_phase := UP\<rparr>,
          (0, ''up'',
           \<lparr>score = Some 100, errors = Some [], knee_angle = None, back_angle = None,
            elbow_angle = None, body_angle = None, an_rep_count = Some 0,
            an_phase = Some ''up'', displacement = Some (1 / 4)\<rparr>))"
proof -
  let ?c = "(new_counter JUMP conf)\<lparr>baseline_y := Some (1 / 2)\<rparr>"
  have h: "exercise_type ?c = JUMP" "thresholds ?c = get_exercise_thresholds JUMP"
    by simp_all
  have b: "jump_base ?c (1 / 4) = 1 / 2"
    by (simp add: jump_base_def)
  have g: "(1::real) / 4 = (pos_y (joint 0 (1 / 4) 1) + pos_y (joint 1 (1 / 4) 1)) / 2"
    by simp
  have s: "jump_step (- float64_0_05) float64_0_1 (?c\<lparr>baseline_y := Some (jump_base ?c (1 / 4))\<rparr>)
      (jump_base ?c (1 / 4) - 1 / 4) =
      (new_counter JUMP conf)\<lparr>baseline_y := Some (1 / 2), current_phase := UP\<rparr>"
    by (simp add: b jump_step_def float64_0_1_def)
  from update_jump_eq [OF h ankle_frame_lookup [of "1 / 4" 1] g refl]
  show ?thesis
    by (simp only: s) (simp add: b result_of_def tag_analysis_def jump_analysis_fields)
qed

section \<open>Claims\<close>

text \<open>
  C4. For squat and push-up, when a joint of the exercise's required list (squat: left hip,
  knee, ankle, shoulder; push-up: left shoulder, elbow, wrist, hip) is absent from the
  landmark set or has visibility at most 0.5, the posture analyzer returns exactly the
  dict with score 0 and the single error "Pose not clearly visible", without angle
  fields, and the per-frame update returns the counter as it was, with its rep count and
  phase.
\<close>


theorem hidden_joint_gate:
  assumes "lms k = None \<or> (\<exists>p. lms k = Some p \<and> visibility p \<le> 0.5)"
  shows
    "(k \<in> {''left_hip'', ''left_knee'', ''left_ankle'', ''left_shoulder''} \<longrightarrow>
        analyze_squat_posture lms =
          Inr \<lparr>score = Some 0, errors = Some [''Pose not clearly visible''],
               knee_angle = None, back_angle = None, elbow_angle = None, body_angle = None,
               an_rep_count = None, an_phase = None, displacement = None\<rparr> \<and>
        (exercise_type c = SQUAT \<and> lms = map_of (mediapipe_to_landmarks mp) \<longrightarrow>
           (\<exists>an. update c mp = Inr (c, (rep_count c, phase_value (current_phase c), an))))) \<and>
     (k \<in> {''left_shoulder'', ''left_elbow'', ''left_wrist'', ''left_hip''} \<longrightarrow>
        analyze_pushup_posture lms =
          Inr \<lparr>score = Some 0, errors = Some [''Pose not clearly visible''],
               knee_angle = None, back_angle = None, elbow_angle = None, body_angle = None,
               an_rep_count = None, an_phase = None, displacement = None\<rparr> \<and>
        (exercise_type c = PUSHUP \<and> lms = map_of (mediapipe_to_landmarks mp) \<longrightarrow>
           (\<exists>an. update c mp = Inr (c, (rep_count c, phase_value (current_phase c), an)))))"
proof -
  have nv: "\<not> clearly_visible lms k"
    using assms by (rule hidden_not_clearly_visible)
  have g: "not_visible_result =
      \<lparr>score = Some 0, errors = Some [''Pose not clearly visible''],
       knee_angle = None, back_angle = None, elbow_angle = None, body_angle = None,
       an_rep_count = None, an_phase = None, displacement = None\<rparr>"
    by (simp add: not_visible_result_def empty_analysis_def)
  have s: "analyze_squat_posture lms = Inr not_visible_result"
    if "k \<in> {''left_hip'', ''left_knee'', ''left_ankle'', ''left_shoulder''}"
    using that nv by (intro analyze_squat_posture_hidden [of k]) (auto simp: squat_required_def)
  have p: "analyze_pushup_posture lms = Inr not_visible_result"
    if "k \<in> {''left_shoulder'', ''left_elbow'', ''left_wrist'', ''left_hip''}"
    using that nv by (intro analyze_pushup_posture_hidden [of k]) (auto simp: pushup_required_def)
  show ?thesis
  proof (intro conjI impI)
    assume "k \<in> {''left_hip'', ''left_knee'', ''left_ankle'', ''left_shoulder''}"
    from s [OF this] show "analyze_squat_posture lms =
          Inr \<lparr>score = Some 0, errors = Some [''Pose not clearly visible''],
               knee_angle = None, back_angle = None, elbow_angle = None, body_angle = None,
               an_rep_count = None, an_phase = None, displacement = None\<rparr>"
      by (simp only: g)
  next
    assume a: "k \<in> {''left_hip'', ''left_knee'', ''left_ankle'', ''left_shoulder''}"
      and b: "exercise_type c = SQUAT \<and> lms = map_of (mediapipe_to_landmarks mp)"
    from s [OF a] b have "analyze_squat_posture (map_of (mediapipe_to_landmarks mp)) =
        Inr not_visible_result" by simp
    with b show "\<exists>an. update c mp = Inr (c, (rep_count c, phase_value (current_phase c), an))"
      by (intro update_unclear_squat) simp_all
  next
    assume "k \<in> {''left_shoulder'', ''left_elbow'', ''left_wrist'', ''left_hip''}"
    from p [OF this] show "analyze_pushup_posture lms =
          Inr \<lparr>score = Some 0, errors = Some [''Pose not clearly visible''],
               knee_angle = None, back_angle = None, elbow_angle = None, body_angle = None,
               an_rep_count = None, an_phase = None, displacement = None\<rparr>"
      by (simp only: g)
  next
    assume a: "k \<in> {''left_shoulder'', ''left_elbow'', ''left_wrist'', ''left_hip''}"
      and b: "exercise_type c = PUSHUP \<and> lms = map_of (mediapipe_to_landmarks mp)"
    from p [OF a] b have "analyze_pushup_posture (map_of (mediapipe_to_landmarks mp)) =
        Inr not_visible_result" by simp
    with b show "\<exists>an. update c mp = Inr (c, (rep_count c, phase_value (current_phase c), an))"
      by (intro update_unclear_pushup) simp_all
  qed
qed

theorem hidden_joint_gate_witness:
  "analyze_squat_posture
     (map_of (mediapipe_to_landmarks
        (body_frame (joint 0 2 1) (joint 0 0 1) (joint 0 0 1) (joint 0 1 1) (joint 0 0 0.3)
           (joint 1 0 1) (joint 1 0 1)))) =
     Inr \<lparr>score = Some 0, errors = Some [''Pose not clearly visible''],
          knee_angle = None, back_angle = None, elbow_angle = None, body_angle = None,
          an_rep_count = None, an_phase = None, displacement = None\<rparr> \<and>
   (\<exists>an. update ((new_counter SQUAT 0.7)\<lparr>current_phase := DOWN, rep_count := 2\<rparr>)
      (body_frame (joint 0 2 1) (joint 0 0 1) (joint 0 0 1) (joint 0 1 1) (joint 0 0 0.3)
           (joint 1 0 1) (joint 1 0 1)) =
     Inr ((new_counter SQUAT 0.7)\<lparr>current_phase := DOWN, rep_count := 2\<rparr>, (2, ''down'', an))) \<and>
   analyze_pushup_posture
     (map_of (mediapipe_to_landmarks
        (torso_frame (joint 0 2 1) (joint 0 0 1) (joint 0 0 0.5) (joint 0 1 1)))) =
     Inr \<lparr>score = Some 0, errors = Some [''Pose not clearly visible''],
          knee_angle = None, back_angle = None, elbow_angle = None, body_angle = None,
          an_rep_count = None, an_phase = None, displacement = None\<rparr> \<and>
   (\<exists>an. update ((new_counter PUSHUP 0.7)\<lparr>current_phase := UP, rep_count := 5\<rparr>)
      (torso_frame (joint 0 2 1) (joint 0 0 1) (joint 0 0 0.5) (joint 0 1 1)) =
     Inr ((new_counter PUSHUP 0.7)\<lparr>current_phase := UP, rep_count := 5\<rparr>, (5, ''up'', an)))"
proof -
  let ?F = "body_frame (joint 0 2 1) (joint 0 0 1) (joint 0 0 1) (joint 0 1 1) (joint 0 0 0.3)
           (joint 1 0 1) (joint 1 0 1)"
  let ?c = "(new_counter SQUAT 0.7)\<lparr>current_phase := DOWN, rep_count := 2\<rparr>"
  let ?G = "torso_frame (joint 0 2 1) (joint 0 0 1) (joint 0 0 0.5) (joint 0 1 1)"
  let ?d = "(new_counter PUSHUP 0.7)\<lparr>current_phase := UP, rep_count := 5\<rparr>"
  have h: "map_of (mediapipe_to_landmarks ?F) ''left_knee'' = None \<or>
      (\<exists>p. map_of (mediapipe_to_landmarks ?F) ''left_knee'' = Some p \<and> visibility p \<le> 0.5)"
    by (simp add: body_frame_lookup)
  have k: "''left_knee'' \<in> {''left_hip'', ''left_knee'', ''left_ankle'', ''left_shoulder''}"
    by simp
  have e: "exercise_type ?c = SQUAT" "rep_count ?c = 2" "phase_value (current_phase ?c) = ''down''"
    by simp_all
  note g = hidden_joint_gate [of "map_of (mediapipe_to_landmarks ?F)" "''left_knee''" ?c ?F]
  note g1 = g [OF h, THEN conjunct1, THEN mp, OF k]
  have "exercise_type ?c = SQUAT \<and>
      map_of (mediapipe_to_landmarks ?F) = map_of (mediapipe_to_landmarks ?F)"
    using e(1) by simp
  from g1 [THEN conjunct2, THEN mp, OF this]
  have s: "\<exists>an. update ?c ?F = Inr (?c, (2, ''down'', an))"
    by (simp only: e(2,3))
  have h': "map_of (mediapipe_to_landmarks ?G) ''left_wrist'' = None \<or>
      (\<exists>p. map_of (mediapipe_to_landmarks ?G) ''left_wrist'' = Some p \<and> visibility p \<le> 0.5)"
    by (simp add: torso_frame_lookup)
  have k': "''left_wrist'' \<in> {''left_shoulder'', ''left_elbow'', ''left_wrist'', ''left_hip''}"
    by simp
  have e': "exercise_type ?d = PUSHUP" "rep_count ?d = 5" "phase_value (current_phase ?d) = ''up''"
    by simp_all
  note g' = hidden_joint_gate [of "map_of (mediapipe_to_landmarks ?G)" "''left_wrist''" ?d ?G]
  note g2 = g' [OF h', THEN conjunct2, THEN mp, OF k']
  have "exercise_type ?d = PUSHUP \<and>
      map_of (mediapipe_to_landmarks ?G) = map_of (mediapipe_to_landmarks ?G)"
    using e'(1) by simp
  from g2 [THEN conjunct2, THEN mp, OF this]
  have p: "\<exists>an. update ?d ?G = Inr (?d, (5, ''up'', an))"
    by (simp only: e'(2,3))
  from g1 [THEN conjunct1] s g2 [THEN conjunct1] p show ?thesis
    by (intro conjI)
qed

text \<open>
  C5. Squat posture analysis with every required joint clearly visible: the score is 100
  less 10 when the knee angle (hip, knee, ankle) is below 70, else less 15 when it is above
  160, and less a further 20 when the back angle (shoulder, hip, knee) is below 160, the
  two deductions adding up; the score is never negative, and the messages come in the
  order of the checks. Both angles are returned with the score.
\<close>
theorem squat_posture_score:
  assumes "lms ''left_hip'' = Some hip" "lms ''left_knee'' = Some knee"
    and "lms ''left_ankle'' = Some ankle" "lms ''left_shoulder'' = Some shoulder"
    and "0.5 < visibility hip" "0.5 < visibility knee"
    and "0.5 < visibility ankle" "0.5 < visibility shoulder"
    and "ka = calculate_angle hip knee ankle" and "ba = calculate_angle shoulder hip knee"
  shows "\<exists>a s. analyze_squat_posture lms = Inr a \<and>
           knee_angle a = Some ka \<and> back_angle a = Some ba \<and>
           score a = Some s \<and>
           s = 100 - (if np_lt ka 70 then 10 else if np_gt ka 160 then 15 else 0)
                   - (if np_lt ba 160 then 20 else 0) \<and>
           0 \<le> s \<and>
           errors a =
             Some ((if np_lt ka 70 then [''Squat too deep'']
                    else if np_gt ka 160 then [''Squat not deep enough''] else [])
                   @ (if np_lt ba 160 then [''Back bent forward''] else []))"
proof -
  have "analyze_squat_posture lms = Inr (squat_report ka ba)"
    unfolding assms(9,10) using assms(1-8) by (rule analyze_squat_posture_visible)
  moreover have "knee_angle (squat_report ka ba) = Some ka" "back_angle (squat_report ka ba) = Some ba"
    by (simp_all add: squat_report_def)
  moreover have "score (squat_report ka ba) =
      Some (100 - (if np_lt ka 70 then 10 else if np_gt ka 160 then 15 else 0)
                - (if np_lt ba 160 then 20 else 0))"
    by (simp add: squat_report_def)
  moreover have "(0::int) \<le> 100 - (if np_lt ka 70 then 10 else if np_gt ka 160 then 15 else 0)
                - (if np_lt ba 160 then 20 else 0)"
    by simp
  moreover have "errors (squat_report ka ba) =
      Some ((if np_lt ka 70 then [''Squat too deep'']
             else if np_gt ka 160 then [''Squat not deep enough''] else [])
            @ (if np_lt ba 160 then [''Back bent forward''] else []))"
    by (simp add: squat_report_def)
  ultimately show ?thesis by blast
qed

theorem squat_posture_score_witness:
  "\<exists>a. analyze_squat_posture
          (map_of (mediapipe_to_landmarks
             (body_frame (joint 1 1 1) (joint 0 0 1) (joint 0 0 1) (joint 0 1 1) (joint 0 0 1)
                (joint 0 (- 1) 1) (joint 0 (- 1) 1)))) = Inr a \<and>
        knee_angle a = Some (Num 180) \<and> back_angle a = Some (Num 90) \<and>
        score a = Some 65 \<and>
        errors a = Some [''Squat not deep enough'', ''Back bent forward'']"
proof -
  let ?F = "body_frame (joint 1 1 1) (joint 0 0 1) (joint 0 0 1) (joint 0 1 1) (joint 0 0 1)
                (joint 0 (- 1) 1) (joint 0 (- 1) 1)"
  note t = squat_posture_score [of "map_of (mediapipe_to_landmarks ?F)"
      "joint 0 1 1" "joint 0 0 1" "joint 0 (- 1) 1" "joint 1 1 1" "Num 180" "Num 90"]
  have "\<exists>a s. analyze_squat_posture (map_of (mediapipe_to_landmarks ?F)) = Inr a \<and>
           knee_angle a = Some (Num 180) \<and> back_angle a = Some (Num 90) \<and>
           score a = Some s \<and>
           s = 100 - (if np_lt (Num 180) 70 then 10 else if np_gt (Num 180) 160 then 15 else 0)
                   - (if np_lt (Num 90) 160 then 20 else 0) \<and>
           0 \<le> s \<and>
           errors a =
             Some ((if np_lt (Num 180) 70 then [''Squat too deep'']
                    else if np_gt (Num 180) 160 then [''Squat not deep enough''] else [])
                   @ (if np_lt (Num 90) 160 then [''Back bent forward''] else []))"
    by (rule t) (simp_all add: body_frame_lookup straight_angle right_angle_at_hip)
  then show ?thesis by auto
qed

text \<open>
  C1. A counter built for squat (down threshold 110, up threshold 160), on a frame whose
  analysis yields a knee angle: from NEUTRAL a knee angle below 110 leads to DOWN; from
  DOWN a knee angle above 160 leads to UP and adds exactly 1 to the rep count; from UP a
  knee angle above 160 leads to NEUTRAL with the rep count as it is; in every other case
  the counter is unchanged. Hence four frames with knee angles 170, 100, 60 and 170, fed
  to a new squat counter, return rep counts 0, 0, 0, 1 and leave it in phase UP with one
  repetition.
\<close>
theorem squat_state_machine:
  fixes c :: RepCounter and mp m1 m2 m3 m4 :: mp_landmarks and conf :: real
  assumes "exercise_type c = SQUAT" and "thresholds c = get_exercise_thresholds SQUAT"
    and "analyze_squat_posture (map_of (mediapipe_to_landmarks mp)) = Inr a"
    and "knee_angle a = Some ka"
    and "analyze_squat_posture (map_of (mediapipe_to_landmarks m1)) = Inr a1"
    and "knee_angle a1 = Some (Num 170)"
    and "analyze_squat_posture (map_of (mediapipe_to_landmarks m2)) = Inr a2"
    and "knee_angle a2 = Some (Num 100)"
    and "analyze_squat_posture (map_of (mediapipe_to_landmarks m3)) = Inr a3"
    and "knee_angle a3 = Some (Num 60)"
    and "analyze_squat_posture (map_of (mediapipe_to_landmarks m4)) = Inr a4"
    and "knee_angle a4 = Some (Num 170)"
  shows
    "(\<exists>c' an. update c mp = Inr (c', (rep_count c', phase_value (current_phase c'), an)) \<and>
        (current_phase c = NEUTRAL \<and> np_lt ka 110 \<longrightarrow> c' = c\<lparr>current_phase := DOWN\<rparr>) \<and>
        (current_phase c = DOWN \<and> np_gt ka 160 \<longrightarrow>
           c' = c\<lparr>current_phase := UP, rep_count := rep_count c + 1\<rparr>) \<and>
        (current_phase c = UP \<and> np_gt ka 160 \<longrightarrow> c' = c\<lparr>current_phase := NEUTRAL\<rparr>) \<and>
        (\<not> (current_phase c = NEUTRAL \<and> np_lt ka 110) \<and>
         \<not> (current_phase c = DOWN \<and> np_gt ka 160) \<and>
         \<not> (current_phase c = UP \<and> np_gt ka 160) \<longrightarrow> c' = c)) \<and>
     (\<exists>c4 outs.
        and_then (RepCounter_init ''squat'' conf) (\<lambda>c0. updates c0 [m1, m2, m3, m4]) =
          Inr (c4, outs) \<and>
        rep_count c4 = 1 \<and> current_phase c4 = UP \<and>
        map fst outs = [0, 0, 0, 1] \<and>
        map (fst \<circ> snd) outs = [''neutral'', ''down'', ''down'', ''up''])"
proof (rule conjI)
  define c' where "c' = angle_step 110 160 c ka"
  have "update c mp = Inr (c', (rep_count c', phase_value (current_phase c'), tag_analysis c' a))"
    unfolding c'_def using update_squat_angle [OF assms(1-4)] by (simp add: result_of_def)
  moreover have "current_phase c = NEUTRAL \<and> np_lt ka 110 \<longrightarrow> c' = c\<lparr>current_phase := DOWN\<rparr>"
    by (simp add: c'_def angle_step_def)
  moreover have "current_phase c = DOWN \<and> np_gt ka 160 \<longrightarrow>
      c' = c\<lparr>current_phase := UP, rep_count := rep_count c + 1\<rparr>"
    by (simp add: c'_def angle_step_def)
  moreover have "current_phase c = UP \<and> np_gt ka 160 \<longrightarrow> c' = c\<lparr>current_phase := NEUTRAL\<rparr>"
    by (simp add: c'_def angle_step_def)
  moreover have "\<not> (current_phase c = NEUTRAL \<and> np_lt ka 110) \<and>
         \<not> (current_phase c = DOWN \<and> np_gt ka 160) \<and>
         \<not> (current_phase c = UP \<and> np_gt ka 160) \<longrightarrow> c' = c"
    by (cases "current_phase c") (simp_all add: c'_def angle_step_def)
  ultimately show "\<exists>c' an. update c mp = Inr (c', (rep_count c', phase_value (current_phase c'), an)) \<and>
        (current_phase c = NEUTRAL \<and> np_lt ka 110 \<longrightarrow> c' = c\<lparr>current_phase := DOWN\<rparr>) \<and>
        (current_phase c = DOWN \<and> np_gt ka 160 \<longrightarrow>
           c' = c\<lparr>current_phase := UP, rep_count := rep_count c + 1\<rparr>) \<and>
        (current_phase c = UP \<and> np_gt ka 160 \<longrightarrow> c' = c\<lparr>current_phase := NEUTRAL\<rparr>) \<and>
        (\<not> (current_phase c = NEUTRAL \<and> np_lt ka 110) \<and>
         \<not> (current_phase c = DOWN \<and> np_gt ka 160) \<and>
         \<not> (current_phase c = UP \<and> np_gt ka 160) \<longrightarrow> c' = c)"
    by blast
next
  define c0 where "c0 = new_counter SQUAT conf"
  define cD where "cD = c0\<lparr>current_phase := DOWN\<rparr>"
  define cU where "cU = c0\<lparr>current_phase := UP, rep_count := 1\<rparr>"
  have k0: "exercise_type c0 = SQUAT" "thresholds c0 = get_exercise_thresholds SQUAT"
    by (simp_all add: c0_def new_counter_def)
  have kD: "exercise_type cD = SQUAT" "thresholds cD = get_exercise_thresholds SQUAT"
    by (simp_all add: cD_def k0)
  have s1: "angle_step 110 160 c0 (Num 170) = c0"
    by (simp add: angle_step_def c0_def new_counter_def)
  have s2: "angle_step 110 160 c0 (Num 100) = cD"
    by (simp add: angle_step_def cD_def c0_def new_counter_def)
  have s3: "angle_step 110 160 cD (Num 60) = cD"
    by (simp add: angle_step_def cD_def)
  have s4: "angle_step 110 160 cD (Num 170) = cU"
    by (simp add: angle_step_def cD_def cU_def c0_def new_counter_def)
  have u1: "update c0 m1 = Inr (result_of c0 (tag_analysis c0 a1))"
    using update_squat_angle [OF k0 assms(5,6)] by (simp only: s1)
  have u2: "update c0 m2 = Inr (result_of cD (tag_analysis cD a2))"
    using update_squat_angle [OF k0 assms(7,8)] by (simp only: s2)
  have u3: "update cD m3 = Inr (result_of cD (tag_analysis cD a3))"
    using update_squat_angle [OF kD assms(9,10)] by (simp only: s3)
  have u4: "update cD m4 = Inr (result_of cU (tag_analysis cU a4))"
    using update_squat_angle [OF kD assms(11,12)] by (simp only: s4)
  have p: "rep_count c0 = 0" "rep_count cD = 0" "rep_count cU = 1"
    "current_phase c0 = NEUTRAL" "current_phase cD = DOWN" "current_phase cU = UP"
    by (simp_all add: c0_def cD_def cU_def new_counter_def)
  have run: "updates c0 [m1, m2, m3, m4] =
      Inr (cU, [(0, ''neutral'', tag_analysis c0 a1), (0, ''down'', tag_analysis cD a2),
                (0, ''down'', tag_analysis cD a3), (1, ''up'', tag_analysis cU a4)])"
    by (simp add: u1 u2 u3 u4 result_of_def p)
  have "and_then (RepCounter_init ''squat'' conf) (\<lambda>c0. updates c0 [m1, m2, m3, m4]) =
      Inr (cU, [(0, ''neutral'', tag_analysis c0 a1), (0, ''down'', tag_analysis cD a2),
                (0, ''down'', tag_analysis cD a3), (1, ''up'', tag_analysis cU a4)])"
    by (simp only: RepCounter_init_known and_then_Inr c0_def [symmetric] run)
  then show "\<exists>c4 outs.
        and_then (RepCounter_init ''squat'' conf) (\<lambda>c0. updates c0 [m1, m2, m3, m4]) =
          Inr (c4, outs) \<and>
        rep_count c4 = 1 \<and> current_phase c4 = UP \<and>
        map fst outs = [0, 0, 0, 1] \<and>
        map (fst \<circ> snd) outs = [''neutral'', ''down'', ''down'', ''up'']"
    by (simp add: p)
qed

theorem squat_state_machine_witness:
  "(\<exists>c' an. update ((new_counter SQUAT 0.7)\<lparr>current_phase := DOWN\<rparr>) (squat_pose 170) =
        Inr (c', (rep_count c', phase_value (current_phase c'), an)) \<and>
      c' = (new_counter SQUAT 0.7)\<lparr>current_phase := UP, rep_count := 1\<rparr>) \<and>
   (\<exists>c' an. update ((new_counter SQUAT 0.7)\<lparr>current_phase := UP, rep_count := 1\<rparr>)
        (squat_pose 170) =
        Inr (c', (rep_count c', phase_value (current_phase c'), an)) \<and>
      c' = (new_counter SQUAT 0.7)\<lparr>current_phase := NEUTRAL, rep_count := 1\<rparr>) \<and>
   (\<exists>c4 outs.
      and_then (RepCounter_init ''squat'' 0.7)
        (\<lambda>c0. updates c0 [squat_pose 170, squat_pose 100, squat_pose 60, squat_pose 170]) =
        Inr (c4, outs) \<and>
      rep_count c4 = 1 \<and> current_phase c4 = UP \<and>
      map fst outs = [0, 0, 0, 1] \<and>
      map (fst \<circ> snd) outs = [''neutral'', ''down'', ''down'', ''up''])"
proof -
  let ?c = "(new_counter SQUAT 0.7)\<lparr>current_phase := DOWN\<rparr>"
  let ?u = "(new_counter SQUAT 0.7)\<lparr>current_phase := UP, rep_count := 1\<rparr>"
  have h: "exercise_type ?c = SQUAT" "thresholds ?c = get_exercise_thresholds SQUAT"
    by simp_all
  have hu: "exercise_type ?u = SQUAT" "thresholds ?u = get_exercise_thresholds SQUAT"
    by simp_all
  have p170: "analyze_squat_posture (map_of (mediapipe_to_landmarks (squat_pose 170))) =
      Inr (squat_report (Num 170)
             (calculate_angle (joint 0 3 1)
                (joint (cos (170 * pi / 180)) (sin (170 * pi / 180)) 1) (joint 0 0 1)))"
    by (rule squat_pose_analysis) simp_all
  have p100: "analyze_squat_posture (map_of (mediapipe_to_landmarks (squat_pose 100))) =
      Inr (squat_report (Num 100)
             (calculate_angle (joint 0 3 1)
                (joint (cos (100 * pi / 180)) (sin (100 * pi / 180)) 1) (joint 0 0 1)))"
    by (rule squat_pose_analysis) simp_all
  have p60: "analyze_squat_posture (map_of (mediapipe_to_landmarks (squat_pose 60))) =
      Inr (squat_report (Num 60)
             (calculate_angle (joint 0 3 1)
                (joint (cos (60 * pi / 180)) (sin (60 * pi / 180)) 1) (joint 0 0 1)))"
    by (rule squat_pose_analysis) simp_all
  note t = squat_state_machine [OF h p170 knee_angle_squat_report p170 knee_angle_squat_report
      p100 knee_angle_squat_report p60 knee_angle_squat_report p170 knee_angle_squat_report,
      of "0.7"]
  note tu = squat_state_machine [OF hu p170 knee_angle_squat_report p170 knee_angle_squat_report
      p100 knee_angle_squat_report p60 knee_angle_squat_report p170 knee_angle_squat_report,
      of "0.7"]
  have e: "current_phase ?c = DOWN" "np_gt (Num 170) 160"
    "?c\<lparr>current_phase := UP, rep_count := rep_count ?c + 1\<rparr> = ?u"
    by simp_all
  from t [THEN conjunct1] e have a:
    "\<exists>c' an. update ?c (squat_pose 170) =
        Inr (c', (rep_count c', phase_value (current_phase c'), an)) \<and> c' = ?u"
    by metis
  have eu: "current_phase ?u = UP"
    "?u\<lparr>current_phase := NEUTRAL\<rparr> =
       (new_counter SQUAT 0.7)\<lparr>current_phase := NEUTRAL, rep_count := 1\<rparr>"
    by simp_all
  from tu [THEN conjunct1] e(2) eu have b:
    "\<exists>c' an. update ?u (squat_pose 170) =
        Inr (c', (rep_count c', phase_value (current_phase c'), an)) \<and>
      c' = (new_counter SQUAT 0.7)\<lparr>current_phase := NEUTRAL, rep_count := 1\<rparr>"
    by metis
  from a b t [THEN conjunct2] show ?thesis by (intro conjI)
qed



text \<open>
  C3. From every counter that construction, updates and resets can produce, for every
  exercise kind: an update returns; it leaves the rep count or adds exactly 1, and adds 1
  exactly on the counted transition (DOWN to UP for squat and push-up, UP to DOWN for
  jump); the phase stays or moves one step along the cycle of the exercise. Over any
  sequence of frames the returned rep counts never decrease.
\<close>
theorem rep_count_monotone:
  assumes "reachable c"
  shows
    "(\<exists>c' an. update c mp = Inr (c', (rep_count c', phase_value (current_phase c'), an)) \<and>
        rep_count c \<le> rep_count c' \<and> rep_count c' \<le> rep_count c + 1 \<and>
        (rep_count c' = rep_count c + 1) =
          counted_edge (exercise_type c) (current_phase c) (current_phase c') \<and>
        (current_phase c' = current_phase c \<or>
         current_phase c' = cycle_next (exercise_type c) (current_phase c))) \<and>
     (\<exists>c' outs. updates c mps = Inr (c', outs) \<and> length outs = length mps \<and>
        rep_count c \<le> rep_count c' \<and> sorted (map fst outs) \<and>
        (\<forall>n \<in> set (map fst outs). rep_count c \<le> n \<and> n \<le> rep_count c'))"
proof (rule conjI)
  from update_reachable [OF assms, of mp] obtain c' an where
    "update c mp = Inr (c', (rep_count c', phase_value (current_phase c'), an))"
    and "one_step c c'" by blast
  then show "\<exists>c' an. update c mp = Inr (c', (rep_count c', phase_value (current_phase c'), an)) \<and>
        rep_count c \<le> rep_count c' \<and> rep_count c' \<le> rep_count c + 1 \<and>
        (rep_count c' = rep_count c + 1) =
          counted_edge (exercise_type c) (current_phase c) (current_phase c') \<and>
        (current_phase c' = current_phase c \<or>
         current_phase c' = cycle_next (exercise_type c) (current_phase c))"
    unfolding one_step_def by blast
next
  from updates_reachable [OF assms, of mps]
  show "\<exists>c' outs. updates c mps = Inr (c', outs) \<and> length outs = length mps \<and>
        rep_count c \<le> rep_count c' \<and> sorted (map fst outs) \<and>
        (\<forall>n \<in> set (map fst outs). rep_count c \<le> n \<and> n \<le> rep_count c')"
    by blast
qed

theorem rep_count_monotone_witness:
  "reachable ((new_counter SQUAT 0.7)\<lparr>current_phase := DOWN\<rparr>) \<and>
   (\<exists>c' an. update ((new_counter SQUAT 0.7)\<lparr>current_phase := DOWN\<rparr>) (squat_pose 170) =
        Inr (c', (rep_count c', phase_value (current_phase c'), an)) \<and>
      0 \<le> rep_count c' \<and> rep_count c' \<le> 1 \<and>
      (rep_count c' = 1) = counted_edge SQUAT DOWN (current_phase c') \<and>
      (current_phase c' = DOWN \<or> current_phase c' = cycle_next SQUAT DOWN)) \<and>
   (\<exists>c' outs. updates ((new_counter SQUAT 0.7)\<lparr>current_phase := DOWN\<rparr>)
        [squat_pose 60, squat_pose 170, squat_pose 170] = Inr (c', outs) \<and>
      length outs = 3 \<and> 0 \<le> rep_count c' \<and> sorted (map fst outs) \<and>
      (\<forall>n \<in> set (map fst outs). 0 \<le> n \<and> n \<le> rep_count c'))"
proof -
  let ?c = "(new_counter SQUAT 0.7)\<lparr>current_phase := DOWN\<rparr>"
  from reachable_new_counter(1) update_new_squat_counter_down
  have r: "reachable ?c" by (rule reachable.step)
  have e: "rep_count ?c = 0" "exercise_type ?c = SQUAT" "current_phase ?c = DOWN"
    by simp_all
  note t = rep_count_monotone [OF r, of "squat_pose 170"
      "[squat_pose 60, squat_pose 170, squat_pose 170]"]
  from t [THEN conjunct1] have a:
    "\<exists>c' an. update ?c (squat_pose 170) =
        Inr (c', (rep_count c', phase_value (current_phase c'), an)) \<and>
      0 \<le> rep_count c' \<and> rep_count c' \<le> 1 \<and>
      (rep_count c' = 1) = counted_edge SQUAT DOWN (current_phase c') \<and>
      (current_phase c' = DOWN \<or> current_phase c' = cycle_next SQUAT DOWN)"
    unfolding e by simp
  from t [THEN conjunct2] have b:
    "\<exists>c' outs. updates ?c [squat_pose 60, squat_pose 170, squat_pose 170] = Inr (c', outs) \<and>
      length outs = 3 \<and> 0 \<le> rep_count c' \<and> sorted (map fst outs) \<and>
      (\<forall>n \<in> set (map fst outs). 0 \<le> n \<and> n \<le> rep_count c')"
    unfolding e by (simp add: numeral_3_eq_3 del: updates.simps)
  from r a b show ?thesis by (intro conjI)
qed

text \<open>
  C9. The confidence threshold given to the constructor gates nothing. For every exercise
  kind and every sequence of frames, a session started with threshold \<open>t1\<close> ends as the
  session started with \<open>t2\<close> does: with the same error if the kind is unknown, else with
  the same outputs frame by frame (rep count, phase, analysis) and the same final counter,
  in which only the stored threshold itself differs.
\<close>

theorem confidence_threshold_inert:
  "(\<forall>e. session kind t2 mps = Inl e \<longrightarrow> session kind t1 mps = Inl e) \<and>
   (\<forall>c2 outs. session kind t2 mps = Inr (c2, outs) \<longrightarrow>
      session kind t1 mps = Inr (c2\<lparr>confidence_threshold := t1\<rparr>, outs))"
  by (simp add: session_confidence [of kind t1 mps t2])

theorem confidence_threshold_inert_witness:
  "session ''yoga'' 0.3 [] = Inl (ValueError ''yoga'') \<and>
   session ''yoga'' 0.9 [] = Inl (ValueError ''yoga'') \<and>
   session ''squat'' 0.3 [squat_pose 100] =
     Inr ((new_counter SQUAT 0.3)\<lparr>current_phase := DOWN\<rparr>,
          [(0, ''down'',
            tag_analysis ((new_counter SQUAT 0.3)\<lparr>current_phase := DOWN\<rparr>)
              (squat_report (Num 100)
                 (calculate_angle (joint 0 3 1)
                    (joint (cos (100 * pi / 180)) (sin (100 * pi / 180)) 1) (joint 0 0 1))))]) \<and>
   session ''squat'' 0.9 [squat_pose 100] =
     Inr ((new_counter SQUAT 0.3)\<lparr>current_phase := DOWN, confidence_threshold := 0.9\<rparr>,
          [(0, ''down'',
            tag_analysis ((new_counter SQUAT 0.3)\<lparr>current_phase := DOWN\<rparr>)
              (squat_report (Num 100)
                 (calculate_angle (joint 0 3 1)
                    (joint (cos (100 * pi / 180)) (sin (100 * pi / 180)) 1) (joint 0 0 1))))])"
proof -
  note y = session_unknown_kind [of "0.3" "[]"]
  note s = session_squat_down [of "0.3"]
  from confidence_threshold_inert [of "''yoga''" "0.3" "[]" "0.9"] y
  have y': "session ''yoga'' 0.9 [] = Inl (ValueError ''yoga'')" by blast
  from confidence_threshold_inert [of "''squat''" "0.3" "[squat_pose 100]" "0.9"] s
  have s': "session ''squat'' 0.9 [squat_pose 100] =
     Inr ((new_counter SQUAT 0.3)\<lparr>current_phase := DOWN, confidence_threshold := 0.9\<rparr>,
          [(0, ''down'',
            tag_analysis ((new_counter SQUAT 0.3)\<lparr>current_phase := DOWN\<rparr>)
              (squat_report (Num 100)
                 (calculate_angle (joint 0 3 1)
                    (joint (cos (100 * pi / 180)) (sin (100 * pi / 180)) 1) (joint 0 0 1))))])"
    by blast
  from y y' s s' show ?thesis by (intro conjI)
qed

text \<open>
  C6. Push-up posture analysis on a detection of 24 landmarks: the four required joints
  clearly visible, a right angle at the elbow, no left knee. The body-line check is made
  on the triple shoulder, hip, hip, as the claim says, and nothing is raised. The claim
  expects a body angle of 0 there and the 20 points for "Keep body in straight line"
  deducted. The second ray has length zero and the division is not guarded: the code
  returns NaN as the body angle, the comparison with 160 is false, and the score is 100
  with no message.
\<close>

theorem pushup_missing_knee_evaluation:
  "analyze_pushup_posture
     (map_of (mediapipe_to_landmarks
        (torso_frame (joint 0 1 1) (joint 0 0 1) (joint 1 0 1) (joint 2 1 1)))) =
   Inr \<lparr>score = Some 100, errors = Some [], knee_angle = None, back_angle = None,
        elbow_angle = Some (Num 90), body_angle = Some NaN, an_rep_count = None,
        an_phase = None, displacement = None\<rparr>"
proof -
  let ?F = "torso_frame (joint 0 1 1) (joint 0 0 1) (joint 1 0 1) (joint 2 1 1)"
  have nan: "calculate_angle (joint 0 1 1) (joint 2 1 1) (joint 2 1 1) = NaN"
    by (rule calculate_angle_degenerate) simp
  have "analyze_pushup_posture (map_of (mediapipe_to_landmarks ?F)) =
      Inr (pushup_report (calculate_angle (joint 0 1 1) (joint 0 0 1) (joint 1 0 1))
             (calculate_angle (joint 0 1 1) (joint 2 1 1)
                (case map_of (mediapipe_to_landmarks ?F) ''left_knee'' of
                   None \<Rightarrow> joint 2 1 1 | Some knee \<Rightarrow> knee)))"
    by (rule analyze_pushup_posture_visible) (simp_all add: torso_frame_lookup)
  then show ?thesis
    by (simp add: torso_frame_lookup nan right_angle pushup_report_def empty_analysis_def)
qed

text \<open>
  C8. \<open>calculate_angle\<close> on two triples of finite points. In the first the three points
  are distinct, with coordinates 0 and \<open>2^-600\<close>: the squares underflow, both norms are
  zero and the cosine is 0/0. In the second the vertex coincides with the third point. The
  claim expects an angle between 0 and 180 for the first, and 0 or a signalled error for
  the second. The code returns NaN for both; numpy warns and raises nothing.
\<close>

theorem calculate_angle_not_a_number:
  "tiny_coord = 1 / 2 ^ 600 \<and>
   calculate_angle (joint tiny_coord 0 1) (joint 0 0 1) (joint 0 tiny_coord 1) = NaN \<and>
   calculate_angle (joint 0 1 1) (joint 2 1 1) (joint 2 1 1) = NaN"
proof (intro conjI)
  show "tiny_coord = 1 / 2 ^ 600" by (rule tiny_coord_def)
  show "calculate_angle (joint tiny_coord 0 1) (joint 0 0 1) (joint 0 tiny_coord 1) = NaN"
    by (rule underflow_angle)
  show "calculate_angle (joint 0 1 1) (joint 2 1 1) (joint 2 1 1) = NaN"
    by (rule calculate_angle_degenerate) simp
qed

text \<open>
  C10, as the code has it. A counter built for jump. On a frame with at least one landmark
  the update returns an analysis with score 100 and no errors, whatever the landmarks are;
  when an ankle is missing, that analysis is exactly the dict with score 100 and an empty
  error list, and the counter is unchanged. On a frame without landmarks (no pose
  detected, or an empty landmark list) the update returns the empty analysis, with neither
  score nor errors, and the counter is unchanged, with its phase and rep count.
\<close>

theorem jump_analysis_constant:
  assumes "exercise_type c = JUMP" and "thresholds c = get_exercise_thresholds JUMP"
  shows
    "(mediapipe_to_landmarks mp = []) = (mp = None \<or> mp = Some []) \<and>
     (mediapipe_to_landmarks mp = [] \<longrightarrow>
        update c mp =
          Inr (c, (rep_count c, phase_value (current_phase c),
                   \<lparr>score = None, errors = None, knee_angle = None, back_angle = None,
                    elbow_angle = None, body_angle = None, an_rep_count = None,
                    an_phase = None, displacement = None\<rparr>))) \<and>
     (mediapipe_to_landmarks mp \<noteq> [] \<longrightarrow>
        (\<exists>c' an. update c mp = Inr (c', (rep_count c', phase_value (current_phase c'), an)) \<and>
           score an = Some 100 \<and> errors an = Some [] \<and>
           (map_of (mediapipe_to_landmarks mp) ''left_ankle'' = None \<or>
            map_of (mediapipe_to_landmarks mp) ''right_ankle'' = None \<longrightarrow>
              c' = c \<and>
              an = \<lparr>score = Some 100, errors = Some [], knee_angle = None, back_angle = None,
                    elbow_angle = None, body_angle = None, an_rep_count = None,
                    an_phase = None, displacement = None\<rparr>)))"
proof (intro conjI impI)
  show "(mediapipe_to_landmarks mp = []) = (mp = None \<or> mp = Some [])"
    by (rule mediapipe_to_landmarks_empty)
next
  assume "mediapipe_to_landmarks mp = []"
  then show "update c mp =
          Inr (c, (rep_count c, phase_value (current_phase c),
                   \<lparr>score = None, errors = None, knee_angle = None, back_angle = None,
                    elbow_angle = None, body_angle = None, an_rep_count = None,
                    an_phase = None, displacement = None\<rparr>))"
    by (simp add: update_empty result_of_def empty_analysis_fields)
next
  assume ne: "mediapipe_to_landmarks mp \<noteq> []"
  show "\<exists>c' an. update c mp = Inr (c', (rep_count c', phase_value (current_phase c'), an)) \<and>
           score an = Some 100 \<and> errors an = Some [] \<and>
           (map_of (mediapipe_to_landmarks mp) ''left_ankle'' = None \<or>
            map_of (mediapipe_to_landmarks mp) ''right_ankle'' = None \<longrightarrow>
              c' = c \<and>
              an = \<lparr>score = Some 100, errors = Some [], knee_angle = None, back_angle = None,
                    elbow_angle = None, body_angle = None, an_rep_count = None,
                    an_phase = None, displacement = None\<rparr>)"
  proof (cases "map_of (mediapipe_to_landmarks mp) ''left_ankle'' = None \<or>
         map_of (mediapipe_to_landmarks mp) ''right_ankle'' = None")
    case True
    from update_jump_missing [OF assms(1) ne True]
    have "update c mp = Inr (c, (rep_count c, phase_value (current_phase c), jump_analysis))"
      by (simp add: result_of_def)
    moreover have "score jump_analysis = Some 100" "errors jump_analysis = Some []"
      by (simp_all add: jump_analysis_def)
    ultimately show ?thesis
      using jump_analysis_fields by blast
  next
    case False
    then obtain la ra where
      a: "map_of (mediapipe_to_landmarks mp) ''left_ankle'' = Some la"
      "map_of (mediapipe_to_landmarks mp) ''right_ankle'' = Some ra" by auto
    define avg where "avg = (pos_y la + pos_y ra) / 2"
    define c' where
      "c' = jump_step (- float64_0_05) float64_0_1 (c\<lparr>baseline_y := Some (jump_base c avg)\<rparr>)
              (jump_base c avg - avg)"
    from update_jump_eq [OF assms(1,2) a avg_def c'_def]
    have u: "update c mp = Inr (c', (rep_count c', phase_value (current_phase c'),
        (tag_analysis c' jump_analysis)\<lparr>displacement := Some (jump_base c avg - avg)\<rparr>))"
      by (simp add: result_of_def)
    show ?thesis
      by (rule exI [of _ c'],
          rule exI [of _ "(tag_analysis c' jump_analysis)\<lparr>displacement := Some (jump_base c avg - avg)\<rparr>"])
         (simp add: u a tagged_jump_analysis)
  qed
qed

theorem jump_analysis_constant_witness:
  "update ((new_counter JUMP 0.7)\<lparr>baseline_y := Some (1 / 2), current_phase := UP, rep_count := 3\<rparr>)
     None =
     Inr ((new_counter JUMP 0.7)\<lparr>baseline_y := Some (1 / 2), current_phase := UP, rep_count := 3\<rparr>,
          (3, ''up'',
           \<lparr>score = None, errors = None, knee_angle = None, back_angle = None,
            elbow_angle = None, body_angle = None, an_rep_count = None, an_phase = None,
            displacement = None\<rparr>)) \<and>
   update ((new_counter JUMP 0.7)\<lparr>baseline_y := Some (1 / 2), current_phase := UP, rep_count := 3\<rparr>)
     (Some []) =
     Inr ((new_counter JUMP 0.7)\<lparr>baseline_y := Some (1 / 2), current_phase := UP, rep_count := 3\<rparr>,
          (3, ''up'',
           \<lparr>score = None, errors = None, knee_angle = None, back_angle = None,
            elbow_angle = None, body_angle = None, an_rep_count = None, an_phase = None,
            displacement = None\<rparr>)) \<and>
   (\<exists>c' an.
      update ((new_counter JUMP 0.7)\<lparr>baseline_y := Some (1 / 2), current_phase := UP, rep_count := 3\<rparr>)
        (torso_frame (joint 0 0 1) (joint 0 0 1) (joint 0 0 1) (joint 0 0 1)) =
        Inr (c', (rep_count c', phase_value (current_phase c'), an)) \<and>
      score an = Some 100 \<and> errors an = Some [] \<and>
      c' = (new_counter JUMP 0.7)\<lparr>baseline_y := Some (1 / 2), current_phase := UP, rep_count := 3\<rparr>) \<and>
   (\<exists>c' an.
      update ((new_counter JUMP 0.7)\<lparr>baseline_y := Some (1 / 2), current_phase := UP, rep_count := 3\<rparr>)
        (ankle_frame (1 / 4) 1) =
        Inr (c', (rep_count c', phase_value (current_phase c'), an)) \<and>
      score an = Some 100 \<and> errors an = Some [])"
proof -
  let ?c = "(new_counter JUMP 0.7)\<lparr>baseline_y := Some (1 / 2), current_phase := UP, rep_count := 3\<rparr>"
  let ?T = "torso_frame (joint 0 0 1) (joint 0 0 1) (joint 0 0 1) (joint 0 0 1)"
  have h: "exercise_type ?c = JUMP" "thresholds ?c = get_exercise_thresholds JUMP"
    by simp_all
  have e: "rep_count ?c = 3" "phase_value (current_phase ?c) = ''up''"
    by simp_all
  note t = jump_analysis_constant [OF h]
  have n: "mediapipe_to_landmarks None = []" "mediapipe_to_landmarks (Some []) = []"
    using t [of None, THEN conjunct1] t [of "Some []", THEN conjunct1] by simp_all
  from t [of None, THEN conjunct2, THEN conjunct1, THEN mp, OF n(1)]
  have a: "update ?c None =
     Inr (?c, (3, ''up'',
           \<lparr>score = None, errors = None, knee_angle = None, back_angle = None,
            elbow_angle = None, body_angle = None, an_rep_count = None, an_phase = None,
            displacement = None\<rparr>))"
    by (simp only: e)
  from t [of "Some []", THEN conjunct2, THEN conjunct1, THEN mp, OF n(2)]
  have b: "update ?c (Some []) =
     Inr (?c, (3, ''up'',
           \<lparr>score = None, errors = None, knee_angle = None, back_angle = None,
            elbow_angle = None, body_angle = None, an_rep_count = None, an_phase = None,
            displacement = None\<rparr>))"
    by (simp only: e)
  from t [of ?T, THEN conjunct2, THEN conjunct2]
  have c: "\<exists>c' an. update ?c ?T = Inr (c', (rep_count c', phase_value (current_phase c'), an)) \<and>
      score an = Some 100 \<and> errors an = Some [] \<and> c' = ?c"
    by (simp add: torso_frame_no_ankles)
  have "mediapipe_to_landmarks (ankle_frame (1 / 4) 1) \<noteq> []"
    using ankle_frame_lookup(1) [of "1 / 4" 1] by auto
  from t [of "ankle_frame (1 / 4) 1", THEN conjunct2, THEN conjunct2, THEN mp, OF this]
  have d: "\<exists>c' an. update ?c (ankle_frame (1 / 4) 1) =
        Inr (c', (rep_count c', phase_value (current_phase c'), an)) \<and>
      score an = Some 100 \<and> errors an = Some []"
    by blast
  from a b c d show ?thesis by (intro conjI)
qed

text \<open>
  C10, the claim as written. It fails when no pose was detected: the update returns an
  empty analysis, without a score.
\<close>

theorem jump_analysis_constant_counterexample:
  "update (new_counter JUMP 0.7) None =
     Inr (new_counter JUMP 0.7,
          (0, ''neutral'',
           \<lparr>score = None, errors = None, knee_angle = None, back_angle = None,
            elbow_angle = None, body_angle = None, an_rep_count = None, an_phase = None,
            displacement = None\<rparr>))"
  by (simp add: update_def mediapipe_to_landmarks_def result_of_def empty_analysis_def)

text \<open>
  C2. A jump session of two frames: both ankles at height 1/2 with visibility 0, then both
  ankles at height 1/4 with visibility 1. The claim expects the baseline to be captured
  from the second frame, the first in which the ankles are visible, so that its
  displacement is 0 and the phase stays NEUTRAL. The code captures the baseline from the
  first frame: the baseline is 1/2, the second frame has displacement 1/4 and moves the
  counter to UP.
\<close>

theorem jump_baseline_from_hidden_ankles:
  "\<not> clearly_visible (map_of (mediapipe_to_landmarks (ankle_frame (1 / 2) 0))) ''left_ankle'' \<and>
   \<not> clearly_visible (map_of (mediapipe_to_landmarks (ankle_frame (1 / 2) 0))) ''right_ankle'' \<and>
   clearly_visible (map_of (mediapipe_to_landmarks (ankle_frame (1 / 4) 1))) ''left_ankle'' \<and>
   clearly_visible (map_of (mediapipe_to_landmarks (ankle_frame (1 / 4) 1))) ''right_ankle'' \<and>
   session ''jump'' (1 / 2) [ankle_frame (1 / 2) 0, ankle_frame (1 / 4) 1] =
     Inr ((new_counter JUMP (1 / 2))\<lparr>baseline_y := Some (1 / 2), current_phase := UP\<rparr>,
          [(0, ''neutral'',
            \<lparr>score = Some 100, errors = Some [], knee_angle = None, back_angle = None,
             elbow_angle = None, body_angle = None, an_rep_count = Some 0,
             an_phase = Some ''neutral'', displacement = Some 0\<rparr>),
           (0, ''up'',
            \<lparr>score = Some 100, errors = Some [], knee_angle = None, back_angle = None,
             elbow_angle = None, body_angle = None, an_rep_count = Some 0,
             an_phase = Some ''up'', displacement = Some (1 / 4)\<rparr>)])"
proof -
  have v: "\<not> clearly_visible (map_of (mediapipe_to_landmarks (ankle_frame (1 / 2) 0))) ''left_ankle''"
    "\<not> clearly_visible (map_of (mediapipe_to_landmarks (ankle_frame (1 / 2) 0))) ''right_ankle''"
    "clearly_visible (map_of (mediapipe_to_landmarks (ankle_frame (1 / 4) 1))) ''left_ankle''"
    "clearly_visible (map_of (mediapipe_to_landmarks (ankle_frame (1 / 4) 1))) ''right_ankle''"
    by (simp_all add: clearly_visible_def ankle_frame_lookup)
  have u1: "update (new_counter JUMP (1 / 2)) (ankle_frame (1 / 2) 0) =
     Inr ((new_counter JUMP (1 / 2))\<lparr>baseline_y := Some (1 / 2)\<rparr>,
          (0, ''neutral'',
           \<lparr>score = Some 100, errors = Some [], knee_angle = None, back_angle = None,
            elbow_angle = None, body_angle = None, an_rep_count = Some 0,
            an_phase = Some ''neutral'', displacement = Some 0\<rparr>))"
    using update_new_jump_counter [OF ankle_frame_lookup [of "1 / 2" 0], where conf = "1 / 2"]
    by (simp add: result_of_def tag_analysis_def jump_analysis_fields)
  note u2 = update_jump_up [of "1 / 2"]
  have "session ''jump'' (1 / 2) [ankle_frame (1 / 2) 0, ankle_frame (1 / 4) 1] =
     Inr ((new_counter JUMP (1 / 2))\<lparr>baseline_y := Some (1 / 2), current_phase := UP\<rparr>,
          [(0, ''neutral'',
            \<lparr>score = Some 100, errors = Some [], knee_angle = None, back_angle = None,
             elbow_angle = None, body_angle = None, an_rep_count = Some 0,
             an_phase = Some ''neutral'', displacement = Some 0\<rparr>),
           (0, ''up'',
            \<lparr>score = Some 100, errors = Some [], knee_angle = None, back_angle = None,
             elbow_angle = None, body_angle = None, an_rep_count = Some 0,
             an_phase = Some ''up'', displacement = Some (1 / 4)\<rparr>)])"
    by (simp add: session_def RepCounter_init_known u1 u2)
  with v show ?thesis by (intro conjI)
qed

end
